theory Spec2Isabelle
  imports Complex_Main
begin

chapter \<open>Toronto crime safety score: ingestion, scoring, forecasting, benchmarks\<close>

text \<open>
  A shallow embedding of the Python sources \<^verbatim>\<open>ingest_data.py\<close>, \<^verbatim>\<open>scoring.py\<close>,
  \<^verbatim>\<open>forecasting.py\<close> and \<^verbatim>\<open>generate_grid_benchmarks.py\<close>.

  Conventions of the embedding.
  \<^item> Python floats are modelled as \<^typ>\<open>real\<close>: arithmetic is exact, there is no NaN
    arithmetic and no rounding error. \<^verbatim>\<open>np.exp\<close>, \<^verbatim>\<open>np.sin\<close>, \<^verbatim>\<open>np.cos\<close>, \<^verbatim>\<open>np.sqrt\<close> are
    the real functions of the same name.
  \<^item> A value read from a pandas row, a JSON object or an SQLite column is a \<open>pyval\<close>.
  \<^item> Behaviour of third-party libraries that the sources only call (the date parser, the
    rendering of numbers and timestamps as text, SQLite's clock, the statistical model
    fitting) is a parameter of the model: a record of functions that the definitions take
    as their first argument. The theorems hold for every such record.
  \<^item> The \<^verbatim>\<open>crimes\<close> table is the list of its rows in insertion order; the
    auto-incremented \<^verbatim>\<open>id\<close> of a row is its position.
\<close>

section \<open>Python values\<close>

datatype pyval = PyNone | PyNaN | PyNum real | PyStr string

datatype py_error = AttributeError | ValueError | KeyError

text \<open>\<^verbatim>\<open>pd.isna\<close>: true of \<^verbatim>\<open>None\<close> and of NaN.\<close>

fun isna :: "pyval \<Rightarrow> bool" where
  "isna PyNone = True"
| "isna PyNaN = True"
| "isna (PyNum x) = False"
| "isna (PyStr s) = False"

text \<open>Truthiness of a value, as in \<^verbatim>\<open>if not category\<close>. NaN is a non-zero float, hence true.\<close>

fun truthy :: "pyval \<Rightarrow> bool" where
  "truthy PyNone = False"
| "truthy PyNaN = True"
| "truthy (PyNum x) = (x \<noteq> 0)"
| "truthy (PyStr s) = (s \<noteq> [])"

text \<open>\<^verbatim>\<open>key in text\<close> on strings: \<open>key\<close> occurs as a contiguous substring.\<close>

fun substring_in :: "string \<Rightarrow> string \<Rightarrow> bool" where
  "substring_in key [] = (key = [])"
| "substring_in key (c # cs) = (take (length key) (c # cs) = key \<or> substring_in key cs)"

text \<open>\<^verbatim>\<open>str.lower\<close> on ASCII text and \<^verbatim>\<open>os.path.basename\<close> on a POSIX path.\<close>

definition lower_char :: "char \<Rightarrow> char" where
  "lower_char c =
     (case map_of (zip ''ABCDEFGHIJKLMNOPQRSTUVWXYZ'' ''abcdefghijklmnopqrstuvwxyz'') c of
        Some l \<Rightarrow> l
      | None \<Rightarrow> c)"

definition lower :: "string \<Rightarrow> string" where
  "lower s = map lower_char s"

definition basename :: "string \<Rightarrow> string" where
  "basename path = rev (takeWhile (\<lambda>c. c \<noteq> CHR ''/'') (rev path))"

text \<open>\<^verbatim>\<open>int(x)\<close> on a float truncates towards zero.\<close>

definition py_int :: "real \<Rightarrow> int" where
  "py_int x = (if 0 \<le> x then \<lfloor>x\<rfloor> else \<lceil>x\<rceil>)"

text \<open>
  \<^verbatim>\<open>round(x, ndigits)\<close>: the nearest multiple of \<open>10 ^ - ndigits\<close>, a tie going to the
  even neighbour.
\<close>

definition round_half_even :: "real \<Rightarrow> int" where
  "round_half_even x =
     (let f = \<lfloor>x\<rfloor>; d = x - of_int f
      in if d < 1 / 2 then f
         else if 1 / 2 < d then f + 1
         else if even f then f else f + 1)"

definition py_round :: "real \<Rightarrow> nat \<Rightarrow> real" where
  "py_round x ndigits = of_int (round_half_even (x * 10 ^ ndigits)) / 10 ^ ndigits"

text \<open>
  \<^verbatim>\<open>bisect.bisect_left(a, x)\<close> of the standard library: binary search for the leftmost
  insertion point of \<open>x\<close>. The loop only reads indices below \<open>hi \<le> len(a)\<close>.
\<close>

function bisect_left_loop :: "real list \<Rightarrow> real \<Rightarrow> nat \<Rightarrow> nat \<Rightarrow> nat" where
  "bisect_left_loop a x lo hi =
     (if lo < hi
      then (let mid = (lo + hi) div 2
            in if a ! mid < x then bisect_left_loop a x (mid + 1) hi
               else bisect_left_loop a x lo mid)
      else lo)"
  by pat_completeness auto
termination
  by (relation "measure (\<lambda>(a, x, lo, hi). hi - lo)") auto

declare bisect_left_loop.simps [simp del]

definition bisect_left :: "real list \<Rightarrow> real \<Rightarrow> nat" where
  "bisect_left a x = bisect_left_loop a x 0 (length a)"

section \<open>scoring.py: percentile lookup\<close>

text \<open>The severity weight table, in the order the dict is written and iterated.\<close>

definition WEIGHTS :: "(string \<times> real) list" where
  "WEIGHTS =
     [(''Homicide'', 100),
      (''Shooting'', 50),
      (''Assault'', 15),
      (''Robbery'', 10),
      (''Break and Enter'', 8),
      (''Auto Theft'', 6),
      (''Theft Over'', 4),
      (''Theft From Motor Vehicle'', 3),
      (''Bicycle Theft'', 2),
      (''NonMCI'', 2),
      (''Other'', 1)]"

definition percentile_to_safety_score :: "real \<Rightarrow> real" where
  "percentile_to_safety_score percentile =
     (if percentile \<le> 50 then 100 - (percentile / 50) * 10
      else if percentile \<le> 80 then 90 - ((percentile - 50) / 30) * 20
      else if percentile \<le> 95 then 70 - ((percentile - 80) / 15) * 30
      else 40 - ((percentile - 95) / 5) * 40)"

text \<open>
  Returns the pair \<open>(safety_score, percentile)\<close>. The quotient, the product and the curve
  are exact here. In double arithmetic \<^verbatim>\<open>(idx / len(distribution)) * 100\<close> can fall just
  beside a decimal tie that the exact value hits (23 of 80 gives 28.749999999999996, not
  28.75), and \<^verbatim>\<open>round\<close> then returns the other neighbour: at such ties the rounded decimal of
  the source and of this definition can differ by 0.1. The statements about the lookup
  hold for both: they fix the two constant results and bound the distance of the rounded
  components to the exact values.
\<close>

definition calculate_percentile_score :: "real \<Rightarrow> real list \<Rightarrow> real \<times> real" where
  "calculate_percentile_score raw_score distribution =
     (if distribution = [] then (50, 50)
      else if raw_score \<le> 0 then (100, 0)
      else (let idx = bisect_left distribution raw_score;
                percentile = (real idx / real (length distribution)) * 100;
                safety_score = percentile_to_safety_score percentile
            in (py_round safety_score 1, py_round percentile 1)))"

section \<open>ingest_data.py: the incident store and ingestion\<close>

text \<open>
  A row of the \<^verbatim>\<open>crimes\<close> table. \<open>event_unique_id\<close>, \<open>date\<close> and \<open>source_file\<close> are always
  bound as text (\<^verbatim>\<open>str(event_id)\<close>, \<^verbatim>\<open>str(dt)\<close>, the file's base name); the other columns
  hold whatever value ingestion read.
\<close>

record crime =
  event_unique_id :: string
  date :: string
  lat :: pyval
  lon :: pyval
  category :: pyval
  type :: pyval
  premises_type :: pyval
  neighbourhood :: pyval
  source_file :: string

text \<open>
  The library calls of ingestion. \<open>'d\<close> is the type of \<^verbatim>\<open>datetime\<close> objects.
  \<^item> \<open>dateutil_parse s\<close>: \<^verbatim>\<open>dateutil.parser.parse(s)\<close>, \<open>None\<close> when it raises;
  \<^item> \<open>replace_hour dt h\<close>: \<^verbatim>\<open>dt.replace(hour=int(h), minute=0, second=0)\<close>, \<open>None\<close> when
    \<^verbatim>\<open>int\<close> or \<^verbatim>\<open>replace\<close> raises;
  \<^item> \<open>str_datetime dt\<close>: \<^verbatim>\<open>str(dt)\<close>;
  \<^item> \<open>str_number x\<close>: \<^verbatim>\<open>str(x)\<close> of a number.
\<close>

record 'd pylib =
  dateutil_parse :: "string \<Rightarrow> 'd option"
  replace_hour :: "'d \<Rightarrow> pyval \<Rightarrow> 'd option"
  str_datetime :: "'d \<Rightarrow> string"
  str_number :: "real \<Rightarrow> string"

definition py_str :: "'d pylib \<Rightarrow> pyval \<Rightarrow> string" where
  "py_str lib v =
     (case v of
        PyNone \<Rightarrow> ''None''
      | PyNaN \<Rightarrow> ''nan''
      | PyNum x \<Rightarrow> str_number lib x
      | PyStr s \<Rightarrow> s)"

text \<open>\<^verbatim>\<open>parse_date\<close>: every exception of the parser becomes \<^verbatim>\<open>None\<close>.\<close>

definition parse_date :: "'d pylib \<Rightarrow> string \<Rightarrow> 'd option" where
  "parse_date lib date_str = dateutil_parse lib date_str"

text \<open>\<^verbatim>\<open>str(dt)\<close> where \<open>dt\<close> may be \<^verbatim>\<open>None\<close>.\<close>

definition str_dt :: "'d pylib \<Rightarrow> 'd option \<Rightarrow> string" where
  "str_dt lib dt = (case dt of None \<Rightarrow> ''None'' | Some d \<Rightarrow> str_datetime lib d)"

definition CATEGORY_MAPPING :: "(string \<times> string) list" where
  "CATEGORY_MAPPING =
     [(''assault'', ''Assault''),
      (''auto_theft'', ''Auto Theft''),
      (''bicycle'', ''Bicycle Theft''),
      (''break_and_enter'', ''Break and Enter''),
      (''homicide'', ''Homicide''),
      (''robbery'', ''Robbery''),
      (''shooting'', ''Shooting''),
      (''theft_from_motor_vehicle'', ''Theft From Motor Vehicle''),
      (''theft_over'', ''Theft Over''),
      (''hate_crime'', ''Hate Crime'')]"

text \<open>
  The table has \<^verbatim>\<open>UNIQUE(event_unique_id)\<close>; \<^verbatim>\<open>INSERT OR IGNORE\<close> skips a row whose key is
  already in the table and appends it otherwise. \<^verbatim>\<open>executemany\<close> inserts the records in
  order.
\<close>

definition insert_or_ignore :: "crime list \<Rightarrow> crime \<Rightarrow> crime list" where
  "insert_or_ignore table r =
     (if event_unique_id r \<in> event_unique_id ` set table then table else table @ [r])"

definition executemany :: "crime list \<Rightarrow> crime list \<Rightarrow> crime list" where
  "executemany table records = foldl insert_or_ignore table records"

text \<open>
  The fallback category of a file: the value of the first key of \<open>CATEGORY_MAPPING\<close> that
  occurs in the lower-cased base name, \<^verbatim>\<open>"Other"\<close> when none does.
\<close>

definition file_category_of :: "string \<Rightarrow> string" where
  "file_category_of file_path =
     (let base_name = lower (basename file_path)
      in case find (\<lambda>(key, val). substring_in key base_name) CATEGORY_MAPPING of
           Some (key, val) \<Rightarrow> val
         | None \<Rightarrow> ''Other'')"

text \<open>
  A pandas row is the function from column names to values; \<^verbatim>\<open>row.get(c)\<close> of a column
  the file does not have is \<^verbatim>\<open>None\<close>. The body of the loop of \<^verbatim>\<open>ingest_csv\<close>: the record
  to append, or \<open>None\<close> when the row is skipped by \<^verbatim>\<open>continue\<close>.
\<close>

definition csv_record :: "'d pylib \<Rightarrow> string \<Rightarrow> (string \<Rightarrow> pyval) \<Rightarrow> crime option" where
  "csv_record lib file_path row =
     (let file_category = file_category_of file_path;
          lat = row ''LAT_WGS84'';
          lat = (if isna lat then row ''Latitude'' else lat);
          lon = row ''LONG_WGS84'';
          lon = (if isna lon then row ''Longitude'' else lon)
      in if isna lat \<or> isna lon \<or> lat = PyNum 0 \<or> lon = PyNum 0 then None
         else
           let date_str = row ''OCC_DATE'';
               date_str = (if isna date_str then row ''OCC_date'' else date_str);
               date_str = (if isna date_str then row ''REPORT_DATE'' else date_str)
           in case parse_date lib (py_str lib date_str) of
                None \<Rightarrow> None
              | Some dt0 \<Rightarrow>
                  let occ_hour = row ''OCC_HOUR'';
                      dt = (if \<not> isna occ_hour
                            then (case replace_hour lib dt0 occ_hour of
                                    Some dt' \<Rightarrow> dt'
                                  | None \<Rightarrow> dt0)
                            else dt0);
                      category = row ''MCI_CATEGORY'';
                      category = (if isna category \<or> category = PyStr ''NonMCI''
                                  then PyStr file_category else category);
                      crime_type = row ''OFFENCE'';
                      crime_type = (if isna crime_type then row ''PRIMARY_OFFENCE'' else crime_type);
                      crime_type = (if isna crime_type then category else crime_type);
                      premises = row ''PREMISES_TYPE'';
                      premises = (if isna premises then PyStr ''Unknown'' else premises);
                      hood = row ''NEIGHBOURHOOD_158'';
                      hood = (if isna hood then row ''NEIGHBOURHOOD_140'' else hood);
                      hood = (if isna hood then PyStr ''Unknown'' else hood);
                      event_id = row ''EVENT_UNIQUE_ID'';
                      event_id = (if isna event_id then row ''OBJECTID'' else event_id)
                  in Some \<lparr>event_unique_id = py_str lib event_id,
                            date = str_dt lib (Some dt),
                            lat = lat, lon = lon,
                            category = category, type = crime_type,
                            premises_type = premises, neighbourhood = hood,
                            source_file = basename file_path\<rparr>)"

text \<open>
  \<^verbatim>\<open>ingest_csv\<close>. The file's content is the list of its rows, or \<open>None\<close> when
  \<^verbatim>\<open>pd.read_csv\<close> raises; then the table is returned as it is.
\<close>

definition csv_records :: "'d pylib \<Rightarrow> string \<Rightarrow> (string \<Rightarrow> pyval) list \<Rightarrow> crime list" where
  "csv_records lib file_path df = List.map_filter (csv_record lib file_path) df"

definition ingest_csv ::
  "'d pylib \<Rightarrow> string \<Rightarrow> (string \<Rightarrow> pyval) list option \<Rightarrow> crime list \<Rightarrow> crime list" where
  "ingest_csv lib file_path content table =
     (case content of
        None \<Rightarrow> table
      | Some df \<Rightarrow>
          let records = csv_records lib file_path df
          in if records \<noteq> [] then executemany table records else table)"

text \<open>
  A GeoJSON feature. \<^verbatim>\<open>feature.get('geometry', {})\<close> and \<^verbatim>\<open>feature.get('properties', {})\<close>:
  a member that is JSON \<^verbatim>\<open>null\<close> is \<open>None\<close> here, and reading a key of it raises
  \<^verbatim>\<open>AttributeError\<close>; a missing member is the empty object. An object is the partial map of
  its members. \<open>coordinates\<close> is the array of the geometry, \<open>None\<close> when the member is
  missing or \<^verbatim>\<open>null\<close>.
\<close>

record geometry =
  geometry_type :: pyval
  coordinates :: "pyval list option"

record feature =
  properties :: "(string \<rightharpoonup> pyval) option"
  geometry :: "geometry option"

text \<open>\<^verbatim>\<open>d.get(key)\<close> and \<^verbatim>\<open>d.get(key, default)\<close> of a dict.\<close>

definition dict_get :: "(string \<rightharpoonup> pyval) \<Rightarrow> string \<Rightarrow> pyval" where
  "dict_get d key = (case d key of Some v \<Rightarrow> v | None \<Rightarrow> PyNone)"

definition dict_get_default :: "(string \<rightharpoonup> pyval) \<Rightarrow> string \<Rightarrow> pyval \<Rightarrow> pyval" where
  "dict_get_default d key dflt = (case d key of Some v \<Rightarrow> v | None \<Rightarrow> dflt)"

text \<open>
  The body of the loop of \<^verbatim>\<open>ingest_geojson\<close>: \<open>Inr None\<close> is \<^verbatim>\<open>continue\<close>, \<open>Inr (Some r)\<close>
  the appended record, \<open>Inl e\<close> an exception, which nothing in the loop catches.
\<close>

definition geojson_record :: "'d pylib \<Rightarrow> string \<Rightarrow> feature \<Rightarrow> py_error + crime option" where
  "geojson_record lib file_path ft =
     (case geometry ft of
        None \<Rightarrow> Inl AttributeError
      | Some geom \<Rightarrow>
          if geometry_type geom \<noteq> PyStr ''Point'' then Inr None
          else
            (case coordinates geom of
               None \<Rightarrow> Inr None
             | Some coords \<Rightarrow>
                 if coords = [] \<or> length coords < 2 then Inr None
                 else
                   (case properties ft of
                      None \<Rightarrow> Inl AttributeError
                    | Some props \<Rightarrow>
                        let lon = coords ! 0;
                            lat = coords ! 1;
                            date_str = dict_get props ''OCC_DATE'';
                            dt = parse_date lib (py_str lib date_str);
                            category = dict_get props ''HOMICIDE_TYPE'';
                            category = (if \<not> truthy category then PyStr ''Homicide'' else category);
                            crime_type = category;
                            event_id = dict_get props ''EVENT_UNIQUE_ID'';
                            premises = PyStr ''Unknown'';
                            hood = dict_get_default props ''NEIGHBOURHOOD_158'' (PyStr ''Unknown'')
                        in Inr (Some \<lparr>event_unique_id = py_str lib event_id,
                                       date = str_dt lib dt,
                                       lat = lat, lon = lon,
                                       category = category, type = crime_type,
                                       premises_type = premises, neighbourhood = hood,
                                       source_file = basename file_path\<rparr>))))"

fun geojson_records ::
  "'d pylib \<Rightarrow> string \<Rightarrow> feature list \<Rightarrow> crime list \<Rightarrow> py_error + crime list" where
  "geojson_records lib file_path [] records = Inr records"
| "geojson_records lib file_path (ft # fts) records =
     (case geojson_record lib file_path ft of
        Inl e \<Rightarrow> Inl e
      | Inr None \<Rightarrow> geojson_records lib file_path fts records
      | Inr (Some r) \<Rightarrow> geojson_records lib file_path fts (records @ [r]))"

text \<open>
  \<^verbatim>\<open>ingest_geojson\<close>. The content is the list \<^verbatim>\<open>data.get('features', [])\<close>, or \<open>None\<close> when
  the file cannot be read or decoded; an exception of the loop leaves the function before
  anything is inserted.
\<close>

definition ingest_geojson ::
  "'d pylib \<Rightarrow> string \<Rightarrow> feature list option \<Rightarrow> crime list \<Rightarrow> py_error + crime list" where
  "ingest_geojson lib file_path content table =
     (case content of
        None \<Rightarrow> Inr table
      | Some features \<Rightarrow>
          (case geojson_records lib file_path features [] of
             Inl e \<Rightarrow> Inl e
           | Inr records \<Rightarrow>
               Inr (if records \<noteq> [] then executemany table records else table)))"

section \<open>forecasting.py\<close>

text \<open>
  An entry of the yearly history, the result of one model, and the forecast returned.
  \<open>year\<close> is the integer \<^verbatim>\<open>int(h['year'])\<close>. The confidence interval of a forecast is
  the number 0 in the two default results and the text \<^verbatim>\<open>f"\<plusminus>{...}"\<close> otherwise:
  \<open>CI_text x\<close> stands for that text of the number \<open>x\<close>.
\<close>

record hist_entry =
  year :: int
  safety_score :: real
  incident_count :: nat

record fit_result =
  predicted_score :: real
  rmse :: real
  confidence_interval :: real

datatype ci_value = CI_number real | CI_text real

record forecast =
  predicted_score :: real
  trend_direction :: string
  model_used :: string
  rmse :: real
  confidence_interval :: ci_value

text \<open>
  The fitting done by \<^verbatim>\<open>statsmodels\<close> and \<^verbatim>\<open>sklearn\<close> inside the \<^verbatim>\<open>try\<close> block of a model:
  from the series (and the years), the pair (one-step forecast, root mean squared error
  of the fit), or \<open>None\<close> when the block raises or returns \<^verbatim>\<open>None\<close>.
\<close>

record statlib =
  holt_fit :: "real list \<Rightarrow> (real \<times> real) option"
  seasonal_fit :: "real list \<Rightarrow> (real \<times> real) option"
  polynomial_fit :: "int list \<Rightarrow> real list \<Rightarrow> (real \<times> real) option"
  linear_fit :: "int list \<Rightarrow> real list \<Rightarrow> (real \<times> real) option"

text \<open>The dict every model returns from its forecast value and its error.\<close>

definition fit_dict :: "real \<Rightarrow> real \<Rightarrow> fit_result" where
  "fit_dict forecast_val rmse_val =
     \<lparr>fit_result.predicted_score = py_round (max 0 (min 100 forecast_val)) 1,
      fit_result.rmse = py_round rmse_val 2,
      fit_result.confidence_interval = py_round (1.96 * rmse_val) 1\<rparr>"

definition fit_holt :: "statlib \<Rightarrow> hist_entry list \<Rightarrow> fit_result option" where
  "fit_holt lib history =
     (if length history < 3 then None
      else map_option (\<lambda>(forecast_val, e). fit_dict forecast_val e)
             (holt_fit lib (map safety_score history)))"

definition fit_linear_regression :: "statlib \<Rightarrow> hist_entry list \<Rightarrow> fit_result option" where
  "fit_linear_regression lib history =
     (if length history < 3 then None
      else map_option (\<lambda>(forecast_val, e). fit_dict forecast_val e)
             (linear_fit lib (map year history) (map safety_score history)))"

definition fit_polynomial :: "statlib \<Rightarrow> hist_entry list \<Rightarrow> fit_result option" where
  "fit_polynomial lib history =
     (if length history < 4 then None
      else map_option (\<lambda>(forecast_val, e). fit_dict forecast_val e)
             (polynomial_fit lib (map year history) (map safety_score history)))"

definition fit_seasonal_decompose :: "statlib \<Rightarrow> hist_entry list \<Rightarrow> fit_result option" where
  "fit_seasonal_decompose lib history =
     (if length history < 6 then None
      else map_option (\<lambda>(forecast_val, e). fit_dict forecast_val e)
             (seasonal_fit lib (map safety_score history)))"

text \<open>\<^verbatim>\<open>sklearn.metrics.mean_squared_error\<close> of two lists of the same length.\<close>

definition mean_squared_error :: "real list \<Rightarrow> real list \<Rightarrow> real" where
  "mean_squared_error y_true y_pred =
     sum_list (map (\<lambda>(y, p). (y - p)\<^sup>2) (zip y_true y_pred)) / real (length y_true)"

text \<open>The moving average calls no fitting library; \<open>window\<close> is 3.\<close>

definition fit_moving_average :: "hist_entry list \<Rightarrow> fit_result option" where
  "fit_moving_average history =
     (let window = 3 in
      if length history < window then None
      else
        let series = map safety_score history;
            recent = drop (length series - window) series;
            forecast_val = sum_list recent / real (length recent);
            predictions = map (\<lambda>i. sum_list (take window (drop (i - window) series)) / real window)
                            [window ..< length series];
            rmse_val = (if predictions \<noteq> []
                        then sqrt (mean_squared_error (drop window series) predictions)
                        else 5)
        in Some (fit_dict forecast_val rmse_val))"

text \<open>
  The active models in the order of the source. \<^verbatim>\<open>fit_arima\<close> is defined in the source
  but is not in this list, and is not modelled.
\<close>

definition models :: "statlib \<Rightarrow> (string \<times> (hist_entry list \<Rightarrow> fit_result option)) list" where
  "models lib =
     [(''Seasonal Decomp'', fit_seasonal_decompose lib),
      (''Holt (Exp Smoothing)'', fit_holt lib),
      (''Polynomial Reg'', fit_polynomial lib),
      (''Linear Regression'', fit_linear_regression lib),
      (''Moving Average'', fit_moving_average)]"

text \<open>The list \<open>results\<close>: the models that returned a forecast, with their names.\<close>

definition fit_results :: "statlib \<Rightarrow> hist_entry list \<Rightarrow> (string \<times> fit_result) list" where
  "fit_results lib history =
     List.map_filter (\<lambda>(name, fit_func). map_option (Pair name) (fit_func history)) (models lib)"

text \<open>\<^verbatim>\<open>min(results, key=...)\<close> returns the first element whose key is minimal.\<close>

fun py_min_from :: "('a \<Rightarrow> real) \<Rightarrow> 'a \<Rightarrow> 'a list \<Rightarrow> 'a" where
  "py_min_from key best [] = best"
| "py_min_from key best (x # xs) = py_min_from key (if key x < key best then x else best) xs"

definition py_min :: "('a \<Rightarrow> real) \<Rightarrow> 'a \<Rightarrow> 'a list \<Rightarrow> 'a" where
  "py_min key x xs = py_min_from key x xs"

text \<open>
  The part of \<^verbatim>\<open>select_best_forecast\<close> after the best model is chosen: the
  recent-trend heuristic and the result.
\<close>

definition adjust_forecast :: "hist_entry list \<Rightarrow> string \<times> fit_result \<Rightarrow> forecast" where
  "adjust_forecast history best =
     (let current = safety_score (last history);
          previous = (if length history > 1
                      then safety_score (history ! (length history - 2)) else current);
          recent_diff = current - previous;
          predicted = fit_result.predicted_score (snd best);
          (predicted, trend_override) =
             (if recent_diff > 10
              then (if predicted < current then (current, Some ''Improving'')
                    else (predicted, None))
              else if recent_diff < - 10
              then (if predicted > current then (current, Some ''Declining'')
                    else (predicted, None))
              else (predicted, None));
          trend = (case trend_override of
                     Some t \<Rightarrow> t
                   | None \<Rightarrow>
                       if predicted > current + 2 then ''Improving''
                       else if predicted < current - 2 then ''Declining''
                       else ''Stable'')
      in \<lparr>predicted_score = predicted,
          trend_direction = trend,
          model_used = fst best @ (if trend_override \<noteq> None then '' (Adjusted)'' else ''''),
          rmse = fit_result.rmse (snd best),
          confidence_interval = CI_text (fit_result.confidence_interval (snd best))\<rparr>)"

definition select_best_forecast :: "statlib \<Rightarrow> hist_entry list \<Rightarrow> forecast" where
  "select_best_forecast lib history =
     (if history = [] \<or> length history < 3
      then \<lparr>predicted_score = (if history \<noteq> [] then safety_score (last history) else 50),
            trend_direction = ''Stable'',
            model_used = ''Insufficient Data'',
            rmse = 0,
            confidence_interval = CI_number 0\<rparr>
      else
        (case fit_results lib history of
           [] \<Rightarrow> \<lparr>predicted_score = safety_score (last history),
                  trend_direction = ''Stable'',
                  model_used = ''Fallback'',
                  rmse = 0,
                  confidence_interval = CI_number 0\<rparr>
         | r # rs \<Rightarrow> adjust_forecast history (py_min (\<lambda>x. fit_result.rmse (snd x)) r rs)))"

section \<open>scoring.py: calculate_score\<close>

text \<open>
  What a query reads from its environment at the time it runs.
  \<^item> \<open>sql_since_years n d\<close>: SQLite's \<^verbatim>\<open>date >= date('now', '-n years')\<close> on the stored date
    text \<open>d\<close>;
  \<^item> \<open>days_old_of d\<close>: \<^verbatim>\<open>(now - pd.to_datetime(d, format='mixed', utc=True)).days\<close>, \<open>None\<close>
    when \<^verbatim>\<open>to_datetime\<close> raises on that text;
  \<^item> \<open>hour_of\<close>, \<open>month_of\<close>, \<open>dayofweek_of\<close>: hour (0 to 23), month (1 to 12) and weekday
    (0 is Monday) of the date in Toronto time, or in UTC when the conversion raises;
  \<^item> \<open>current_year\<close>: \<^verbatim>\<open>now.year\<close>.
\<close>

record clock =
  sql_since_years :: "nat \<Rightarrow> string \<Rightarrow> bool"
  days_old_of :: "string \<Rightarrow> int option"
  hour_of :: "string \<Rightarrow> nat"
  month_of :: "string \<Rightarrow> nat"
  dayofweek_of :: "string \<Rightarrow> nat"
  current_year :: int

text \<open>
  The content of \<^verbatim>\<open>benchmarks.json\<close> that is read back (\<^verbatim>\<open>generated_at\<close> and the two
  constants of the metadata are left out). \<open>by_category\<close> is the dict as the list of its
  items. \<^verbatim>\<open>load_benchmarks\<close> returns the empty dict when the file cannot be read; reading
  a key of it gives the default, the empty list.
\<close>

record benchmarks =
  total_points :: nat
  data_records :: nat
  overall_distribution :: "real list"
  by_category :: "(string \<times> real list) list"

definition empty_benchmarks :: benchmarks where
  "empty_benchmarks =
     \<lparr>total_points = 0, data_records = 0, overall_distribution = [], by_category = []\<rparr>"

text \<open>
  The response. Of a \<open>category_breakdown\<close> entry, \<^verbatim>\<open>top_subtypes\<close> is left out; of
  \<open>insights\<close>, \<^verbatim>\<open>peak_hour\<close>, \<^verbatim>\<open>peak_time_range\<close>, \<^verbatim>\<open>neighbourhood\<close> and
  \<^verbatim>\<open>premises_breakdown\<close> are left out (text formatting and pandas counting). An empty dict
  in \<open>insights\<close> or \<open>forecast\<close> is \<open>None\<close>.
\<close>

record cat_entry =
  safety_score :: real
  category_percentile :: real
  incident_count :: nat
  city_avg_incidents :: int
  trend :: string
  weighted_impact :: real

record insights =
  safety_clock :: "int list"
  monthly_pattern :: "int list"
  weekly_pattern :: "real list"
  primary_risk :: string

record temporal_breakdown =
  day_safety_score :: real
  night_safety_score :: real

record risk_tags =
  negative :: "string list"
  positive :: "string list"

record benchmark =
  status :: string
  city_percentile :: int
  city_average_score :: real

record response =
  current_score :: real
  overall_percentile :: real
  history :: "hist_entry list"
  category_breakdown :: "(string \<times> cat_entry) list"
  insights :: "insights option"
  temporal_breakdown :: temporal_breakdown
  risk_tags :: risk_tags
  benchmark :: benchmark
  forecast :: "forecast option"

definition base_response :: response where
  "base_response =
     \<lparr>current_score = 100,
      overall_percentile = 0,
      history = [],
      category_breakdown = [],
      insights = None,
      temporal_breakdown = \<lparr>day_safety_score = 100, night_safety_score = 100\<rparr>,
      risk_tags = \<lparr>negative = [], positive = []\<rparr>,
      benchmark = \<lparr>status = ''N/A'', city_percentile = 0, city_average_score = 50\<rparr>,
      forecast = None\<rparr>"

subsection \<open>Distance\<close>

definition radians :: "real \<Rightarrow> real" where
  "radians x = x * pi / 180"

text \<open>\<^verbatim>\<open>np.arctan2(y, x)\<close>: the angle of the point \<open>(x, y)\<close>, in \<open>(-\<pi>, \<pi>]\<close>.\<close>

definition arctan2 :: "real \<Rightarrow> real \<Rightarrow> real" where
  "arctan2 y x =
     (if 0 < x then arctan (y / x)
      else if x < 0 then (if 0 \<le> y then arctan (y / x) + pi else arctan (y / x) - pi)
      else if 0 < y then pi / 2
      else if y < 0 then - pi / 2
      else 0)"

text \<open>
  The haversine distance in km between the query point and a row's coordinates. The
  parameters \<^verbatim>\<open>lat\<close> and \<^verbatim>\<open>lon\<close> of the source are \<open>qlat\<close> and \<open>qlon\<close> here: the
  plain names are the columns of the table.
\<close>

definition haversine :: "real \<Rightarrow> real \<Rightarrow> real \<Rightarrow> real \<Rightarrow> real" where
  "haversine qlat qlon row_lat row_lon =
     (let R = 6371;
          dlat = radians (row_lat - qlat);
          dlon = radians (row_lon - qlon);
          a = (sin (dlat / 2))\<^sup>2 + cos (radians qlat) * cos (radians row_lat) * (sin (dlon / 2))\<^sup>2;
          c = 2 * arctan2 (sqrt a) (sqrt (1 - a))
      in R * c)"

text \<open>
  Comparing a stored coordinate with numeric bounds. In SQLite \<^verbatim>\<open>v BETWEEN lo AND hi\<close> is
  false of \<^verbatim>\<open>NULL\<close> and of a text value (text sorts after every number); in pandas a
  comparison with a missing value is false.
\<close>

definition between :: "pyval \<Rightarrow> real \<Rightarrow> real \<Rightarrow> bool" where
  "between v lo hi = (case v of PyNum x \<Rightarrow> lo \<le> x \<and> x \<le> hi | _ \<Rightarrow> False)"

text \<open>The number in a coordinate; applied only to rows that passed \<open>between\<close>.\<close>

fun the_num :: "pyval \<Rightarrow> real" where
  "the_num (PyNum x) = x"
| "the_num v = 0"

definition distance :: "real \<Rightarrow> real \<Rightarrow> crime \<Rightarrow> real" where
  "distance qlat qlon r = haversine qlat qlon (the_num (crime.lat r)) (the_num (crime.lon r))"

subsection \<open>Derived columns\<close>

text \<open>\<open>days_old\<close> is read only after every date of the frame has been parsed.\<close>

definition days_old :: "clock \<Rightarrow> crime \<Rightarrow> int" where
  "days_old clk r = (case days_old_of clk (date r) of Some d \<Rightarrow> d | None \<Rightarrow> 0)"

text \<open>\<^verbatim>\<open>df['category'].map(WEIGHTS).fillna(1)\<close>.\<close>

definition weight :: "crime \<Rightarrow> real" where
  "weight r =
     (case crime.category r of
        PyStr c \<Rightarrow> (case map_of WEIGHTS c of Some w \<Rightarrow> w | None \<Rightarrow> 1)
      | _ \<Rightarrow> 1)"

text \<open>The column \<open>score\<close>: weight times the exponential time decay.\<close>

definition score :: "clock \<Rightarrow> crime \<Rightarrow> real" where
  "score clk r =
     (let years_old = real_of_int (days_old clk r) / 365.25;
          time_factor = exp (- 0.15 * years_old)
      in weight r * time_factor)"

definition hour :: "clock \<Rightarrow> crime \<Rightarrow> nat" where
  "hour clk r = hour_of clk (date r)"

definition month :: "clock \<Rightarrow> crime \<Rightarrow> nat" where
  "month clk r = month_of clk (date r)"

definition dayofweek :: "clock \<Rightarrow> crime \<Rightarrow> nat" where
  "dayofweek clk r = dayofweek_of clk (date r)"

subsection \<open>The query and the two filters\<close>

definition sql_query :: "clock \<Rightarrow> crime list \<Rightarrow> real \<Rightarrow> real \<Rightarrow> real \<Rightarrow> crime list" where
  "sql_query clk table qlat qlon radius_km =
     (let lat_delta = radius_km / 111;
          lon_delta = radius_km / (111 * cos (radians qlat));
          min_lat = qlat - lat_delta; max_lat = qlat + lat_delta;
          min_lon = qlon - lon_delta; max_lon = qlon + lon_delta
      in filter (\<lambda>r. between (crime.lat r) min_lat max_lat \<and>
                      between (crime.lon r) min_lon max_lon \<and>
                      sql_since_years clk 10 (date r)) table)"

text \<open>The frame after the exact distance filter: the in-radius candidates.\<close>

definition candidates :: "clock \<Rightarrow> crime list \<Rightarrow> real \<Rightarrow> real \<Rightarrow> real \<Rightarrow> crime list" where
  "candidates clk table qlat qlon radius_km =
     filter (\<lambda>r. distance qlat qlon r \<le> radius_km) (sql_query clk table qlat qlon radius_km)"

text \<open>\<open>df_current\<close>: the candidates of the last 365 days.\<close>

definition df_current_of :: "clock \<Rightarrow> crime list \<Rightarrow> crime list" where
  "df_current_of clk df = filter (\<lambda>r. days_old clk r \<le> 365) df"

subsection \<open>The steps of the response\<close>

text \<open>Step 1: current score and overall percentile, from the candidates of the last year.\<close>

definition current_score_of :: "clock \<Rightarrow> benchmarks \<Rightarrow> crime list \<Rightarrow> real \<times> real" where
  "current_score_of clk BENCHMARKS df_current =
     (if df_current \<noteq> []
      then (let total_raw_risk = sum_list (map (score clk) df_current);
                overall_dist = overall_distribution BENCHMARKS
            in calculate_percentile_score total_raw_risk overall_dist)
      else (100, 0))"

text \<open>Step 2: one history entry for each of the ten trailing 365-day windows.\<close>

definition history_entry :: "clock \<Rightarrow> benchmarks \<Rightarrow> crime list \<Rightarrow> nat \<Rightarrow> hist_entry" where
  "history_entry clk BENCHMARKS df i =
     (let start_days = int i * 365;
          end_days = (int i + 1) * 365;
          year_label = current_year clk - int i;
          year_df = filter (\<lambda>r. start_days \<le> days_old clk r \<and> days_old clk r < end_days) df;
          (year_safety, count) =
             (if year_df = [] then (100, 0)
              else (let year_raw_risk = sum_list (map weight year_df)
                    in (fst (calculate_percentile_score year_raw_risk
                               (overall_distribution BENCHMARKS)),
                        length year_df)))
      in \<lparr>hist_entry.year = year_label,
          hist_entry.safety_score = year_safety,
          hist_entry.incident_count = count\<rparr>)"

definition history_of :: "clock \<Rightarrow> benchmarks \<Rightarrow> crime list \<Rightarrow> hist_entry list" where
  "history_of clk BENCHMARKS df = map (history_entry clk BENCHMARKS df) [0 ..< 10]"

text \<open>\<^verbatim>\<open>np.median\<close> of a non-empty list.\<close>

definition median :: "real list \<Rightarrow> real" where
  "median xs =
     (let s = sort xs; n = length s
      in if odd n then s ! (n div 2) else (s ! (n div 2 - 1) + s ! (n div 2)) / 2)"

text \<open>
  Step 4: the body of the loop over \<^verbatim>\<open>WEIGHTS.keys()\<close>, for the key \<open>cat\<close> of weight \<open>w\<close>:
  \<open>None\<close> is \<^verbatim>\<open>continue\<close>, otherwise the entry stored under \<open>cat\<close>.
\<close>

definition category_entry ::
  "clock \<Rightarrow> benchmarks \<Rightarrow> crime list \<Rightarrow> string \<Rightarrow> real \<Rightarrow> cat_entry option" where
  "category_entry clk BENCHMARKS df_current cat w =
     (let cat_df = filter (\<lambda>r. crime.category r = PyStr cat) df_current;
          count = length cat_df
      in if count = 0 then None
         else
           let cat_raw_risk = sum_list (map (score clk) cat_df);
               cat_dist = (case map_of (by_category BENCHMARKS) cat of
                             Some d \<Rightarrow> d | None \<Rightarrow> []);
               (cat_safety, cat_percentile) = calculate_percentile_score cat_raw_risk cat_dist;
               city_avg =
                 (if cat_dist \<noteq> []
                  then (let non_zero_cat = filter (\<lambda>x. x > 0) cat_dist;
                            city_avg_raw = (if non_zero_cat \<noteq> [] then median non_zero_cat else 0);
                            avg_time_factor = 0.9
                        in if w > 0 then py_int (city_avg_raw / w / avg_time_factor) else 0)
                  else 0);
               recent_count = length (filter (\<lambda>r. days_old clk r \<le> 365) cat_df);
               prev_count = length (filter (\<lambda>r. days_old clk r > 365 \<and> days_old clk r \<le> 730) cat_df);
               trend_val =
                 (if prev_count = 0
                  then (if recent_count > 0 then ''Up'' else ''Stable'')
                  else (let change = (real recent_count - real prev_count) / real prev_count
                        in if change > 0.2 then ''Up''
                           else if change < - 0.2 then ''Down''
                           else ''Stable''))
           in Some \<lparr>cat_entry.safety_score = cat_safety,
                     cat_entry.category_percentile = cat_percentile,
                     cat_entry.incident_count = count,
                     cat_entry.city_avg_incidents = city_avg,
                     cat_entry.trend = trend_val,
                     cat_entry.weighted_impact = py_round cat_raw_risk 1\<rparr>)"

definition category_breakdown_of ::
  "clock \<Rightarrow> benchmarks \<Rightarrow> crime list \<Rightarrow> (string \<times> cat_entry) list" where
  "category_breakdown_of clk BENCHMARKS df_current =
     (if df_current \<noteq> []
      then List.map_filter
             (\<lambda>(cat, w). map_option (Pair cat) (category_entry clk BENCHMARKS df_current cat w))
             WEIGHTS
      else [])"

text \<open>Step 5: the patterns of the insights. \<^verbatim>\<open>Series.max()\<close> of a non-empty series.\<close>

definition series_max :: "real list \<Rightarrow> real" where
  "series_max xs = foldl max (hd xs) (tl xs)"

text \<open>
  \<^verbatim>\<open>groupby(key)['score'].sum().reindex(keys, fill_value=0)\<close> followed by the
  normalisation \<^verbatim>\<open>(100 - counts / max * 100).astype(int)\<close>.
\<close>

definition pattern :: "clock \<Rightarrow> (crime \<Rightarrow> nat) \<Rightarrow> nat list \<Rightarrow> crime list \<Rightarrow> int list" where
  "pattern clk key keys df_current =
     (let counts = map (\<lambda>k. sum_list (map (score clk) (filter (\<lambda>r. key r = k) df_current))) keys;
          max_count = series_max counts
      in if max_count > 0
         then map (\<lambda>c. py_int (100 - c / max_count * 100)) counts
         else map (\<lambda>c. 100) counts)"

definition weekly_scores :: "clock \<Rightarrow> benchmarks \<Rightarrow> crime list \<Rightarrow> real list" where
  "weekly_scores clk BENCHMARKS df_current =
     map (\<lambda>day.
            let day_df = filter (\<lambda>r. dayofweek clk r = day) df_current
            in if day_df = [] then 100
               else (let day_raw_risk = sum_list (map (score clk) day_df)
                     in fst (calculate_percentile_score (day_raw_risk * 7)
                               (overall_distribution BENCHMARKS))))
         [0 ..< 7]"

text \<open>The loop that picks the category of the largest weighted impact above 0.\<close>

definition primary_risk_of :: "(string \<times> cat_entry) list \<Rightarrow> string" where
  "primary_risk_of breakdown =
     snd (foldl (\<lambda>(max_risk, primary) (cat, data).
                   if cat_entry.weighted_impact data > max_risk
                   then (cat_entry.weighted_impact data, cat)
                   else (max_risk, primary))
                (0, ''None'') breakdown)"

definition insights_of ::
  "clock \<Rightarrow> benchmarks \<Rightarrow> crime list \<Rightarrow> (string \<times> cat_entry) list \<Rightarrow> insights" where
  "insights_of clk BENCHMARKS df_current breakdown =
     \<lparr>safety_clock = pattern clk (hour clk) [0 ..< 24] df_current,
      monthly_pattern = pattern clk (month clk) [1 ..< 13] df_current,
      weekly_pattern = weekly_scores clk BENCHMARKS df_current,
      primary_risk = primary_risk_of breakdown\<rparr>"

definition temporal_breakdown_of :: "clock \<Rightarrow> benchmarks \<Rightarrow> crime list \<Rightarrow> temporal_breakdown" where
  "temporal_breakdown_of clk BENCHMARKS df_current =
     (let day_mask = (\<lambda>r. hour clk r \<ge> 6 \<and> hour clk r < 18);
          day_risk = sum_list (map (score clk) (filter day_mask df_current));
          night_risk = sum_list (map (score clk) (filter (\<lambda>r. \<not> day_mask r) df_current));
          day_safety = fst (calculate_percentile_score (day_risk * 2)
                              (overall_distribution BENCHMARKS));
          night_safety = fst (calculate_percentile_score (night_risk * 2)
                                (overall_distribution BENCHMARKS))
      in \<lparr>day_safety_score = day_safety, night_safety_score = night_safety\<rparr>)"

text \<open>Step 6: the risk tags.\<close>

definition risk_tags_of ::
  "real \<Rightarrow> temporal_breakdown \<Rightarrow> (string \<times> cat_entry) list \<Rightarrow> risk_tags" where
  "risk_tags_of score_now temporal breakdown =
     (let tags = (if score_now \<ge> 80 then [''High Safety Area'']
                  else if score_now \<le> 40 then [''High Crime Area'']
                  else []);
          tags = tags @ (if night_safety_score temporal < day_safety_score temporal - 20
                         then [''Nighttime Risk''] else []);
          tags = tags @ map (\<lambda>(cat, data). ''High '' @ cat)
                          (filter (\<lambda>(cat, data). cat_entry.safety_score data < 50) breakdown)
      in \<lparr>negative = filter (\<lambda>t. substring_in ''High'' t \<or> substring_in ''Risk'' t) tags,
          positive = filter (\<lambda>t. substring_in ''Safe'' t) tags\<rparr>)"

text \<open>Step 7: the benchmark summary.\<close>

definition benchmark_of :: "real \<Rightarrow> benchmark" where
  "benchmark_of score_now =
     (let percentile = 100 - score_now;
          status_val = (if score_now \<ge> 90 then ''Very High Safety''
                        else if score_now \<ge> 80 then ''High Safety''
                        else if score_now \<ge> 60 then ''Moderate Safety''
                        else if score_now \<ge> 40 then ''Low Safety''
                        else ''Very Low Safety'')
      in \<lparr>status = status_val, city_percentile = py_int percentile, city_average_score = 50\<rparr>)"

text \<open>
  The response built from a non-empty frame \<open>df\<close> of in-radius candidates whose dates
  all parsed. The omitted insight \<^verbatim>\<open>neighbourhood\<close> is
  \<^verbatim>\<open>df_current['neighbourhood'].mode()[0]\<close>; \<^verbatim>\<open>mode\<close> drops missing values, so when
  \<open>df_current\<close> is not empty and every neighbourhood in it is missing, the index \<^verbatim>\<open>[0]\<close>
  raises \<^verbatim>\<open>KeyError\<close>.
\<close>

definition score_response ::
  "clock \<Rightarrow> statlib \<Rightarrow> benchmarks \<Rightarrow> crime list \<Rightarrow> py_error + response" where
  "score_response clk lib BENCHMARKS df =
     (let df_current = df_current_of clk df;
          (safety, percentile) = current_score_of clk BENCHMARKS df_current;
          hist = history_of clk BENCHMARKS df;
          history_chronological = sort_key hist_entry.year hist;
          fc = select_best_forecast lib history_chronological;
          breakdown = category_breakdown_of clk BENCHMARKS df_current
      in if df_current \<noteq> [] \<and> (\<forall>r \<in> set df_current. isna (crime.neighbourhood r))
         then Inl KeyError
         else
           let ins = (if df_current \<noteq> []
                      then Some (insights_of clk BENCHMARKS df_current breakdown) else None);
               temporal = (if df_current \<noteq> []
                           then temporal_breakdown_of clk BENCHMARKS df_current
                           else \<lparr>day_safety_score = 100, night_safety_score = 100\<rparr>)
           in Inr \<lparr>current_score = safety,
                    overall_percentile = percentile,
                    history = hist,
                    category_breakdown = breakdown,
                    insights = ins,
                    temporal_breakdown = temporal,
                    risk_tags = risk_tags_of safety temporal breakdown,
                    benchmark = benchmark_of safety,
                    forecast = Some fc\<rparr>)"

text \<open>
  \<^verbatim>\<open>calculate_score(lat, lon, radius_km)\<close>, without the cache: the table and the loaded
  benchmarks are arguments.
\<close>

definition calculate_score ::
  "clock \<Rightarrow> statlib \<Rightarrow> benchmarks \<Rightarrow> crime list \<Rightarrow> real \<Rightarrow> real \<Rightarrow> real \<Rightarrow> py_error + response" where
  "calculate_score clk lib BENCHMARKS table qlat qlon radius_km =
     (let df = sql_query clk table qlat qlon radius_km
      in if df = [] then Inr base_response
         else
           let df = filter (\<lambda>r. distance qlat qlon r \<le> radius_km) df
           in if df = [] then Inr base_response
              else if \<exists>r \<in> set df. days_old_of clk (date r) = None then Inl ValueError
              else score_response clk lib BENCHMARKS df)"

section \<open>generate_grid_benchmarks.py\<close>

text \<open>
  \<^verbatim>\<open>np.arange(start, stop, step)\<close> for a positive step: the values \<open>start + i * step\<close> for
  \<open>i\<close> below \<open>\<lceil>(stop - start) / step\<rceil>\<close>.
\<close>

definition arange :: "real \<Rightarrow> real \<Rightarrow> real \<Rightarrow> real list" where
  "arange start stop step =
     map (\<lambda>i. start + real i * step) [0 ..< nat \<lceil>(stop - start) / step\<rceil>]"

definition GRID_RESOLUTION_KM :: real where
  "GRID_RESOLUTION_KM = 0.2"

definition RADIUS_KM :: real where
  "RADIUS_KM = 0.8"

text \<open>
  \<^verbatim>\<open>calculate_raw_score\<close>: the total score of a point and the dict of the scores by
  category, which has a key for each category that occurs among the nearby rows.
\<close>

definition calculate_raw_score ::
  "clock \<Rightarrow> crime list \<Rightarrow> real \<Rightarrow> real \<Rightarrow> real \<Rightarrow> real \<times> (string \<rightharpoonup> real)" where
  "calculate_raw_score clk df qlat qlon radius_km =
     (let lat_delta = 0.01;
          lon_delta = 0.015;
          subset = filter (\<lambda>r. between (crime.lat r) (qlat - lat_delta) (qlat + lat_delta) \<and>
                               between (crime.lon r) (qlon - lon_delta) (qlon + lon_delta)) df
      in if subset = [] then (0, Map.empty)
         else
           let nearby = filter (\<lambda>r. distance qlat qlon r \<le> radius_km) subset
           in if nearby = [] then (0, Map.empty)
              else
                let total_score = sum_list (map (score clk) nearby);
                    cat_scores = (\<lambda>cat.
                       let group = filter (\<lambda>r. crime.category r = PyStr cat) nearby
                       in if group = [] then None else Some (sum_list (map (score clk) group)))
                in (total_score, cat_scores))"

text \<open>The grid over the bounding box of the city, latitude-major.\<close>

definition grid_points :: "(real \<times> real) list" where
  "grid_points =
     (let min_lat = 43.58; max_lat = 43.85;
          min_lon = - 79.64; max_lon = - 79.12;
          lat_step = GRID_RESOLUTION_KM / 111;
          lon_step = GRID_RESOLUTION_KM / (111 * cos (radians 43.7));
          lats = arange min_lat max_lat lat_step;
          lons = arange min_lon max_lon lon_step
      in concat (map (\<lambda>la. map (\<lambda>lo. (la, lo)) lons) lats))"

text \<open>
  The benchmark object built from the non-empty frame \<open>df\<close> of the last year's rows:
  one raw score for every grid point, and for every key of \<open>WEIGHTS\<close> one score for every
  grid point, 0 where the point's dict has no such key; every list sorted.
\<close>

definition build_benchmarks :: "clock \<Rightarrow> crime list \<Rightarrow> benchmarks" where
  "build_benchmarks clk df =
     (let results = map (\<lambda>(la, lo). calculate_raw_score clk df la lo RADIUS_KM) grid_points;
          raw_scores = map fst results;
          category_scores =
            map (\<lambda>(cat, w).
                   (cat, map (\<lambda>(total, cat_breakdown).
                                case cat_breakdown cat of Some val \<Rightarrow> val | None \<Rightarrow> 0)
                             results))
                WEIGHTS
      in \<lparr>total_points = length grid_points,
          data_records = length df,
          overall_distribution = sort raw_scores,
          by_category = map (\<lambda>(cat, scores). (cat, sort scores)) category_scores\<rparr>)"

text \<open>
  \<^verbatim>\<open>generate_benchmarks\<close>: \<open>Inr None\<close> when the query returns no row (the function returns
  without writing the file), \<open>Inl\<close> when \<^verbatim>\<open>pd.to_datetime\<close> raises, otherwise the object
  written to \<^verbatim>\<open>benchmarks.json\<close>.
\<close>

definition generate_benchmarks :: "clock \<Rightarrow> crime list \<Rightarrow> py_error + benchmarks option" where
  "generate_benchmarks clk table =
     (let df = filter (\<lambda>r. sql_since_years clk 1 (date r)) table
      in if df = [] then Inr None
         else if \<exists>r \<in> set df. days_old_of clk (date r) = None then Inl ValueError
         else Inr (Some (build_benchmarks clk df)))"

section \<open>Inputs for the examples\<close>

text \<open>
  A pandas row from its (column, value) pairs, and an instance of the library record for
  the examples: its date parser accepts two ISO dates and rejects every other text (as
  \<^verbatim>\<open>dateutil\<close> rejects \<^verbatim>\<open>'None'\<close> and \<^verbatim>\<open>'nan'\<close>), its datetimes are their own text.
\<close>

definition row_of :: "(string \<times> pyval) list \<Rightarrow> string \<Rightarrow> pyval" where
  "row_of cells column = (case map_of cells column of Some v \<Rightarrow> v | None \<Rightarrow> PyNone)"

definition example_lib :: "string pylib" where
  "example_lib =
     \<lparr>dateutil_parse = (\<lambda>s. if s = ''2024-03-01'' \<or> s = ''2024-05-17''
                              then Some (s @ '' 00:00:00'') else None),
      replace_hour = (\<lambda>dt h. None),
      str_datetime = (\<lambda>dt. dt),
      str_number = (\<lambda>x. if x = 7 then ''7'' else ''0'')\<rparr>"

definition example_csv :: "(string \<Rightarrow> pyval) list" where
  "example_csv =
     [row_of [(''EVENT_UNIQUE_ID'', PyStr ''GO-1''), (''OCC_DATE'', PyStr ''2024-03-01''),
              (''LAT_WGS84'', PyNum 43.7), (''LONG_WGS84'', PyNum (-79.4)),
              (''MCI_CATEGORY'', PyStr ''Assault'')],
      row_of [(''EVENT_UNIQUE_ID'', PyStr ''GO-1''), (''OCC_DATE'', PyStr ''2024-05-17''),
              (''LAT_WGS84'', PyNum 43.6), (''LONG_WGS84'', PyNum (-79.5)),
              (''MCI_CATEGORY'', PyStr ''Robbery'')],
      row_of [(''EVENT_UNIQUE_ID'', PyStr ''GO-2''), (''OCC_DATE'', PyStr ''2024-05-17''),
              (''LAT_WGS84'', PyNum 0), (''LONG_WGS84'', PyNum 0)],
      row_of [(''EVENT_UNIQUE_ID'', PyStr ''GO-3''), (''OCC_DATE'', PyStr ''yesterday''),
              (''LAT_WGS84'', PyNum 43.7), (''LONG_WGS84'', PyNum (-79.4))],
      row_of [(''OBJECTID'', PyNum 7), (''REPORT_DATE'', PyStr ''2024-05-17''),
              (''LAT_WGS84'', PyNaN), (''Latitude'', PyNum 43.65),
              (''Longitude'', PyNum (-79.38))]]"

text \<open>A table that already holds an incident with the key \<^verbatim>\<open>GO-1\<close>.\<close>

definition example_table :: "crime list" where
  "example_table =
     [\<lparr>event_unique_id = ''GO-1'', date = ''2023-01-09 00:00:00'',
       lat = PyNum 43.71, lon = PyNum (-79.41),
       category = PyStr ''Theft Over'', type = PyStr ''Theft Over'',
       premises_type = PyStr ''House'', neighbourhood = PyStr ''Annex'',
       source_file = ''theft_over.csv''\<rparr>]"

text \<open>
  A GeoJSON point feature at longitude 0, latitude 0 whose properties carry no
  \<^verbatim>\<open>OCC_DATE\<close>.
\<close>

definition example_feature :: feature where
  "example_feature =
     \<lparr>properties = Some Map.empty,
      geometry = Some \<lparr>geometry_type = PyStr ''Point'',
                        coordinates = Some [PyNum 0, PyNum 0]\<rparr>\<rparr>"

text \<open>
  A fitting library whose every model predicts 55 with error 1, and two histories: the
  two years 2023 and 2024 with safety scores 60 and 75, and the same preceded by 2022 with
  score 50.
\<close>

definition example_statlib :: statlib where
  "example_statlib =
     \<lparr>holt_fit = (\<lambda>series. Some (55, 1)),
      seasonal_fit = (\<lambda>series. Some (55, 1)),
      polynomial_fit = (\<lambda>years scores. Some (55, 1)),
      linear_fit = (\<lambda>years scores. Some (55, 1))\<rparr>"

definition history_2 :: "hist_entry list" where
  "history_2 =
     [\<lparr>hist_entry.year = 2023, hist_entry.safety_score = 60, hist_entry.incident_count = 4\<rparr>,
      \<lparr>hist_entry.year = 2024, hist_entry.safety_score = 75, hist_entry.incident_count = 2\<rparr>]"

definition history_3 :: "hist_entry list" where
  "history_3 = \<lparr>hist_entry.year = 2022, hist_entry.safety_score = 50, hist_entry.incident_count = 6\<rparr> # history_2"

text \<open>A history with a strong recent decline.\<close>

definition history_decline :: "hist_entry list" where
  "history_decline =
     [\<lparr>hist_entry.year = 2022, hist_entry.safety_score = 70, hist_entry.incident_count = 1\<rparr>,
      \<lparr>hist_entry.year = 2023, hist_entry.safety_score = 60, hist_entry.incident_count = 3\<rparr>,
      \<lparr>hist_entry.year = 2024, hist_entry.safety_score = 40, hist_entry.incident_count = 9\<rparr>]"

text \<open>
  A clock in 2024 for which every stored date passes the date test of the queries; the
  date text \<^verbatim>\<open>2023-10-01 00:00:00\<close> is 400 days old, the text \<^verbatim>\<open>None\<close> does not parse,
  and every other date is ten days old, at noon on a Monday in May.
\<close>

definition example_clock :: clock where
  "example_clock =
     \<lparr>sql_since_years = (\<lambda>n d. True),
      days_old_of = (\<lambda>d. if d = ''2023-10-01 00:00:00'' then Some 400
                           else if d = ''None'' then None else Some 10),
      hour_of = (\<lambda>d. 12),
      month_of = (\<lambda>d. 5),
      dayofweek_of = (\<lambda>d. 0),
      current_year = 2024\<rparr>"

text \<open>
  A query point in Toronto with the default radius, and rows at that point: one assault
  ten days old, five assaults 400 days old, and one incident of the category
  \<^verbatim>\<open>Hate Crime\<close> ten days old.
\<close>

definition example_lat :: real where
  "example_lat = 43.7"

definition example_lon :: real where
  "example_lon = - 79.4"

definition example_radius :: real where
  "example_radius = 0.8"

definition incident_at :: "string \<Rightarrow> string \<Rightarrow> string \<Rightarrow> crime" where
  "incident_at key d cat =
     \<lparr>event_unique_id = key, date = d,
      lat = PyNum example_lat, lon = PyNum example_lon,
      category = PyStr cat, type = PyStr cat,
      premises_type = PyStr ''Unknown'', neighbourhood = PyStr ''Unknown'',
      source_file = ''example.csv''\<rparr>"

definition example_store :: "crime list" where
  "example_store =
     [incident_at ''E-1'' ''2024-05-17 00:00:00'' ''Assault'',
      incident_at ''E-2'' ''2023-10-01 00:00:00'' ''Assault'',
      incident_at ''E-3'' ''2023-10-01 00:00:00'' ''Assault'',
      incident_at ''E-4'' ''2023-10-01 00:00:00'' ''Assault'',
      incident_at ''E-5'' ''2023-10-01 00:00:00'' ''Assault'',
      incident_at ''E-6'' ''2023-10-01 00:00:00'' ''Assault'',
      incident_at ''E-7'' ''2024-05-17 00:00:00'' ''Hate Crime'']"

text \<open>A table whose only row lies at (45, -79), one degree north of the point (44, -79).\<close>

definition far_store :: "crime list" where
  "far_store =
     [(incident_at ''F-1'' ''2024-05-17 00:00:00'' ''Assault'')
        \<lparr>lat := PyNum 45, lon := PyNum (- 79)\<rparr>]"

section \<open>Proofs: the percentile lookup\<close>

subsection \<open>Binary search\<close>

lemma bisect_left_loop_bounds:
  "lo \<le> hi \<Longrightarrow> lo \<le> bisect_left_loop a x lo hi \<and> bisect_left_loop a x lo hi \<le> hi"
proof (induction a x lo hi rule: bisect_left_loop.induct)
  case (1 a x lo hi)
  show ?case
  proof (cases "lo < hi")
    case False
    then have "bisect_left_loop a x lo hi = lo"
      by (subst bisect_left_loop.simps) simp
    with "1.prems" False show ?thesis by simp
  next
    case True
    define mid where "mid = (lo + hi) div 2"
    have m: "lo \<le> mid" "mid < hi" using True by (simp_all add: mid_def)
    show ?thesis
    proof (cases "a ! mid < x")
      case True
      have "mid + 1 \<le> bisect_left_loop a x (mid + 1) hi \<and> bisect_left_loop a x (mid + 1) hi \<le> hi"
        using "1.IH"(1) [of mid] \<open>lo < hi\<close> True m by (simp add: mid_def)
      then show ?thesis
        using \<open>lo < hi\<close> True m by (simp add: bisect_left_loop.simps [of a x lo hi] mid_def Let_def)
    next
      case False
      have "lo \<le> bisect_left_loop a x lo mid \<and> bisect_left_loop a x lo mid \<le> mid"
        using "1.IH"(2) [of mid] \<open>lo < hi\<close> False m by (simp add: mid_def)
      then show ?thesis
        using \<open>lo < hi\<close> False m by (simp add: bisect_left_loop.simps [of a x lo hi] mid_def Let_def)
    qed
  qed
qed

lemma bisect_left_le_length: "bisect_left a x \<le> length a"
  using bisect_left_loop_bounds [of 0 "length a" a x] by (simp add: bisect_left_def)





lemma round_half_even_bounds:
  "of_int lo \<le> x \<Longrightarrow> x \<le> of_int hi \<Longrightarrow> lo \<le> round_half_even x \<and> round_half_even x \<le> hi"
proof -
  assume l: "of_int lo \<le> x" and h: "x \<le> of_int hi"
  have fl: "lo \<le> \<lfloor>x\<rfloor>" using l by (simp add: le_floor_iff)
  have fh: "\<lfloor>x\<rfloor> \<le> hi" using h by (simp add: floor_le_iff)
  have up: "\<lfloor>x\<rfloor> + 1 \<le> hi" if "x \<noteq> of_int \<lfloor>x\<rfloor>"
  proof -
    have "of_int \<lfloor>x\<rfloor> < x" using that of_int_floor_le [of x] by linarith
    with h have "of_int \<lfloor>x\<rfloor> < (of_int hi :: real)" by linarith
    then have "\<lfloor>x\<rfloor> < hi" by simp
    then show ?thesis by simp
  qed
  show ?thesis
    using fl fh up by (auto simp: round_half_even_def Let_def)
qed

lemma py_round_range:
  "0 \<le> x \<Longrightarrow> x \<le> 100 \<Longrightarrow> 0 \<le> py_round x 1 \<and> py_round x 1 \<le> 100"
proof -
  assume "0 \<le> x" "x \<le> 100"
  then have "of_int 0 \<le> x * 10" "x * 10 \<le> of_int 1000" by simp_all
  then have "0 \<le> round_half_even (x * 10) \<and> round_half_even (x * 10) \<le> 1000"
    by (rule round_half_even_bounds)
  then have "0 \<le> (of_int (round_half_even (x * 10)) :: real)"
    "(of_int (round_half_even (x * 10)) :: real) \<le> 1000"
    by simp_all
  then show ?thesis by (simp add: py_round_def)
qed

lemma percentile_to_safety_score_range:
  "0 \<le> p \<Longrightarrow> p \<le> 100 \<Longrightarrow>
   0 \<le> percentile_to_safety_score p \<and> percentile_to_safety_score p \<le> 100"
  unfolding percentile_to_safety_score_def by (auto simp: field_simps)

lemma percentile_range:
  "a \<noteq> [] \<Longrightarrow> 0 \<le> (real (bisect_left a x) / real (length a)) * 100 \<and>
     (real (bisect_left a x) / real (length a)) * 100 \<le> 100"
  using bisect_left_le_length [of a x] by (simp add: divide_le_eq)

subsection \<open>The safety curve\<close>









subsection \<open>The lookup\<close>

text \<open>
  Claim C10. For every raw score, of any sign or magnitude, and every reference
  distribution (sorted or not), both the safety score and the percentile returned by
  \<open>calculate_percentile_score\<close> lie in \<open>[0, 100]\<close>.
\<close>

theorem calculate_percentile_score_range:
  "0 \<le> fst (calculate_percentile_score raw_score distribution) \<and>
   fst (calculate_percentile_score raw_score distribution) \<le> 100 \<and>
   0 \<le> snd (calculate_percentile_score raw_score distribution) \<and>
   snd (calculate_percentile_score raw_score distribution) \<le> 100"
proof (cases "distribution = [] \<or> raw_score \<le> 0")
  case True
  then show ?thesis by (auto simp: calculate_percentile_score_def)
next
  case False
  define p where "p = (real (bisect_left distribution raw_score) / real (length distribution)) * 100"
  have p: "0 \<le> p \<and> p \<le> 100"
    unfolding p_def using False by (intro percentile_range) simp
  then have s: "0 \<le> percentile_to_safety_score p \<and> percentile_to_safety_score p \<le> 100"
    by (simp add: percentile_to_safety_score_range)
  have "calculate_percentile_score raw_score distribution =
          (py_round (percentile_to_safety_score p) 1, py_round p 1)"
    using False by (simp add: calculate_percentile_score_def p_def Let_def)
  then show ?thesis
    using py_round_range [of p] py_round_range [of "percentile_to_safety_score p"] p s by simp
qed






section \<open>Proofs: ingestion\<close>

subsection \<open>Insertion that ignores duplicates\<close>

lemma keys_insert_or_ignore:
  "event_unique_id ` set (insert_or_ignore table r) =
     insert (event_unique_id r) (event_unique_id ` set table)"
  by (auto simp: insert_or_ignore_def)

lemma keys_executemany:
  "event_unique_id ` set (executemany table records) =
     event_unique_id ` set table \<union> event_unique_id ` set records"
  unfolding executemany_def
proof (induction records arbitrary: table)
  case Nil
  show ?case by simp
next
  case (Cons r records)
  show ?case
    using Cons.IH [of "insert_or_ignore table r"]
    by (simp add: keys_insert_or_ignore)
qed

lemma executemany_absorbed:
  "event_unique_id ` set records \<subseteq> event_unique_id ` set table \<Longrightarrow>
   executemany table records = table"
  unfolding executemany_def
  by (induction records) (auto simp: insert_or_ignore_def)

lemma executemany_twice:
  "executemany (executemany table records) records = executemany table records"
  by (rule executemany_absorbed) (simp add: keys_executemany)

lemma insert_or_ignore_keeps:
  "take (length table) (insert_or_ignore table r) = table"
  by (simp add: insert_or_ignore_def)

lemma executemany_keeps:
  "take (length table) (executemany table records) = table"
  unfolding executemany_def
proof (induction records arbitrary: table)
  case Nil
  show ?case by simp
next
  case (Cons r records)
  have le: "length table \<le> length (insert_or_ignore table r)"
    by (simp add: insert_or_ignore_def)
  have "take (length table) (foldl insert_or_ignore (insert_or_ignore table r) records) =
        take (length table) (take (length (insert_or_ignore table r))
          (foldl insert_or_ignore (insert_or_ignore table r) records))"
    using le by (simp add: min_def)
  also have "\<dots> = take (length table) (insert_or_ignore table r)"
    by (simp only: Cons.IH)
  also have "\<dots> = table" by (rule insert_or_ignore_keeps)
  finally show ?case by simp
qed

text \<open>
  Claim C8. Tabular ingestion is idempotent: a second run of \<open>ingest_csv\<close> on the same file
  leaves the table as the first run left it. A record whose \<open>event_unique_id\<close> is already in
  the table is skipped, and the rows that were in the table stay where and what they were.
\<close>

theorem ingest_csv_idempotent:
  "ingest_csv lib file_path content (ingest_csv lib file_path content table) =
     ingest_csv lib file_path content table \<and>
   take (length table) (ingest_csv lib file_path content table) = table \<and>
   (event_unique_id r \<in> event_unique_id ` set table \<longrightarrow> insert_or_ignore table r = table)"
  by (cases content)
     (simp_all add: ingest_csv_def Let_def executemany_twice executemany_keeps
        insert_or_ignore_def)

lemma file_category_hate_crime:
  "file_category_of ''data/Hate_Crime.csv'' = ''Hate Crime''"
  by (simp add: file_category_of_def lower_def lower_char_def basename_def CATEGORY_MAPPING_def)

lemma example_csv_records:
  "csv_records example_lib ''data/Hate_Crime.csv'' example_csv =
     [\<lparr>event_unique_id = ''GO-1'', date = ''2024-03-01 00:00:00'',
       lat = PyNum 43.7, lon = PyNum (-79.4),
       category = PyStr ''Assault'', type = PyStr ''Assault'',
       premises_type = PyStr ''Unknown'', neighbourhood = PyStr ''Unknown'',
       source_file = ''Hate_Crime.csv''\<rparr>,
      \<lparr>event_unique_id = ''GO-1'', date = ''2024-05-17 00:00:00'',
       lat = PyNum 43.6, lon = PyNum (-79.5),
       category = PyStr ''Robbery'', type = PyStr ''Robbery'',
       premises_type = PyStr ''Unknown'', neighbourhood = PyStr ''Unknown'',
       source_file = ''Hate_Crime.csv''\<rparr>,
      \<lparr>event_unique_id = ''7'', date = ''2024-05-17 00:00:00'',
       lat = PyNum 43.65, lon = PyNum (-79.38),
       category = PyStr ''Hate Crime'', type = PyStr ''Hate Crime'',
       premises_type = PyStr ''Unknown'', neighbourhood = PyStr ''Unknown'',
       source_file = ''Hate_Crime.csv''\<rparr>]"
  by (simp add: csv_records_def csv_record_def example_csv_def row_of_def example_lib_def
      file_category_hate_crime List.map_filter_def parse_date_def py_str_def str_dt_def
      basename_def Let_def)

lemma example_csv_ingested:
  "ingest_csv example_lib ''data/Hate_Crime.csv'' (Some example_csv) example_table =
     example_table @
     [\<lparr>event_unique_id = ''7'', date = ''2024-05-17 00:00:00'',
       lat = PyNum 43.65, lon = PyNum (-79.38),
       category = PyStr ''Hate Crime'', type = PyStr ''Hate Crime'',
       premises_type = PyStr ''Unknown'', neighbourhood = PyStr ''Unknown'',
       source_file = ''Hate_Crime.csv''\<rparr>]"
  by (simp add: ingest_csv_def example_csv_records executemany_def insert_or_ignore_def
      example_table_def)

theorem ingest_csv_idempotent_witness:
  "event_unique_id (hd (csv_records example_lib ''data/Hate_Crime.csv'' example_csv))
     \<in> event_unique_id ` set example_table \<and>
   insert_or_ignore example_table
     (hd (csv_records example_lib ''data/Hate_Crime.csv'' example_csv)) = example_table \<and>
   ingest_csv example_lib ''data/Hate_Crime.csv'' (Some example_csv)
     (ingest_csv example_lib ''data/Hate_Crime.csv'' (Some example_csv) example_table) =
   ingest_csv example_lib ''data/Hate_Crime.csv'' (Some example_csv) example_table \<and>
   length (ingest_csv example_lib ''data/Hate_Crime.csv'' (Some example_csv) example_table) = 2"
proof -
  have key: "event_unique_id (hd (csv_records example_lib ''data/Hate_Crime.csv'' example_csv))
     \<in> event_unique_id ` set example_table"
    by (simp add: example_csv_records example_table_def)
  have len: "length (ingest_csv example_lib ''data/Hate_Crime.csv'' (Some example_csv)
      example_table) = 2"
    unfolding example_csv_ingested by (simp add: example_table_def)
  show ?thesis
    using key len
      ingest_csv_idempotent [of example_lib "''data/Hate_Crime.csv''" "Some example_csv"
        example_table "hd (csv_records example_lib ''data/Hate_Crime.csv'' example_csv)"]
    by simp
qed

subsection \<open>What the two paths store\<close>

text \<open>
  The tabular path keeps the invariant: a record it builds has both coordinates present
  and different from zero, and its date is the text of a datetime the parser returned.
\<close>

lemma csv_record_valid:
  assumes "csv_record lib file_path row = Some r"
  shows "\<not> isna (lat r) \<and> lat r \<noteq> PyNum 0 \<and> \<not> isna (lon r) \<and> lon r \<noteq> PyNum 0 \<and>
         (\<exists>d. date r = str_datetime lib d)"
proof -
  define la where "la = (if isna (row ''LAT_WGS84'') then row ''Latitude'' else row ''LAT_WGS84'')"
  define lo where "lo = (if isna (row ''LONG_WGS84'') then row ''Longitude'' else row ''LONG_WGS84'')"
  have ok: "\<not> (isna la \<or> isna lo \<or> la = PyNum 0 \<or> lo = PyNum 0)"
  proof
    assume "isna la \<or> isna lo \<or> la = PyNum 0 \<or> lo = PyNum 0"
    then have "csv_record lib file_path row = None"
      unfolding csv_record_def Let_def la_def lo_def by (simp only: if_True)
    with assms show False by simp
  qed
  have "lat r = la \<and> lon r = lo \<and> (\<exists>d. date r = str_datetime lib d)"
    using assms ok unfolding csv_record_def Let_def la_def [symmetric] lo_def [symmetric]
    by (auto simp: str_dt_def split: option.splits)
  with ok show ?thesis by simp
qed

lemma ingest_csv_rows:
  "set (ingest_csv lib file_path content table) \<subseteq>
     set table \<union> {r. \<exists>row. csv_record lib file_path row = Some r}"
proof -
  have ins: "set (foldl insert_or_ignore t rs) \<subseteq> set t \<union> set rs" for t rs
  proof (induction rs arbitrary: t)
    case Nil
    show ?case by simp
  next
    case (Cons a rs)
    have "set (insert_or_ignore t a) \<subseteq> set t \<union> {a}"
      by (auto simp: insert_or_ignore_def)
    with Cons.IH [of "insert_or_ignore t a"] show ?case by auto
  qed
  have recs: "set (csv_records lib file_path df) \<subseteq> {r. \<exists>row. csv_record lib file_path row = Some r}"
    for df
    by (auto simp: csv_records_def List.map_filter_def)
  show ?thesis
  proof (cases content)
    case None
    then show ?thesis by (simp add: ingest_csv_def)
  next
    case (Some df)
    then show ?thesis
      using ins [of table "csv_records lib file_path df"] recs [of df]
      by (auto simp: ingest_csv_def Let_def executemany_def)
  qed
qed

text \<open>
  The GeoJSON path does not: for every library instance, the point feature at (0, 0)
  without an \<^verbatim>\<open>OCC_DATE\<close> yields a record with both coordinates zero, and its date is the
  text of whatever \<open>parse_date\<close> made of \<^verbatim>\<open>'None'\<close>, the text \<^verbatim>\<open>'None'\<close> when the parser
  rejected it.
\<close>

lemma geojson_record_example:
  "geojson_record lib ''data/homicides.geojson'' example_feature =
     Inr (Some \<lparr>event_unique_id = ''None'',
                 date = str_dt lib (parse_date lib ''None''),
                 lat = PyNum 0, lon = PyNum 0,
                 category = PyStr ''Homicide'', type = PyStr ''Homicide'',
                 premises_type = PyStr ''Unknown'', neighbourhood = PyStr ''Unknown'',
                 source_file = ''homicides.geojson''\<rparr>)"
  by (simp add: geojson_record_def example_feature_def dict_get_def dict_get_default_def
      py_str_def basename_def Let_def)

text \<open>
  Claim C1 says that every stored row, of both paths, has non-zero coordinates and a date
  that was parsed. \<open>ingest_csv\<close> guarantees it (\<open>csv_record_valid\<close>); \<open>ingest_geojson\<close>
  has neither check. Evaluated on a file whose only feature is a point at (0, 0) without
  an occurrence date, it stores a row with \<open>lat = 0\<close>, \<open>lon = 0\<close> and the date text
  \<^verbatim>\<open>'None'\<close>.
\<close>

theorem ingest_geojson_stores_invalid_row:
  "ingest_geojson example_lib ''data/homicides.geojson'' (Some [example_feature]) [] =
     Inr [\<lparr>event_unique_id = ''None'', date = ''None'',
           lat = PyNum 0, lon = PyNum 0,
           category = PyStr ''Homicide'', type = PyStr ''Homicide'',
           premises_type = PyStr ''Unknown'', neighbourhood = PyStr ''Unknown'',
           source_file = ''homicides.geojson''\<rparr>]"
  by (simp add: ingest_geojson_def geojson_record_example executemany_def
      insert_or_ignore_def parse_date_def str_dt_def example_lib_def)

section \<open>Proofs: forecast selection\<close>

lemma select_best_forecast_short:
  "length hist < 3 \<Longrightarrow>
   trend_direction (select_best_forecast lib hist) = ''Stable'' \<and>
   model_used (select_best_forecast lib hist) = ''Insufficient Data'' \<and>
   forecast.predicted_score (select_best_forecast lib hist) =
     (if hist \<noteq> [] then hist_entry.safety_score (last hist) else 50)"
  by (simp add: select_best_forecast_def)

lemma adjust_forecast_improving:
  assumes "1 < length hist"
    and "10 < hist_entry.safety_score (last hist) - hist_entry.safety_score (hist ! (length hist - 2))"
    and "fit_result.predicted_score (snd best) < hist_entry.safety_score (last hist)"
  shows "adjust_forecast hist best =
     \<lparr>predicted_score = hist_entry.safety_score (last hist),
      trend_direction = ''Improving'',
      model_used = fst best @ '' (Adjusted)'',
      rmse = fit_result.rmse (snd best),
      confidence_interval = CI_text (fit_result.confidence_interval (snd best))\<rparr>"
  using assms by (simp add: adjust_forecast_def Let_def)

lemma adjust_forecast_declining:
  assumes "1 < length hist"
    and "hist_entry.safety_score (last hist) - hist_entry.safety_score (hist ! (length hist - 2)) < - 10"
    and "hist_entry.safety_score (last hist) < fit_result.predicted_score (snd best)"
  shows "adjust_forecast hist best =
     \<lparr>predicted_score = hist_entry.safety_score (last hist),
      trend_direction = ''Declining'',
      model_used = fst best @ '' (Adjusted)'',
      rmse = fit_result.rmse (snd best),
      confidence_interval = CI_text (fit_result.confidence_interval (snd best))\<rparr>"
  using assms by (simp add: adjust_forecast_def Let_def)

text \<open>
  Claim C6, as stated, has the override fire on the two-entry history 2023: 60, 2024: 75.
  A history of fewer than three entries never reaches model selection: with every library
  model predicting 55, the result on that history is the last score, the trend
  \<^verbatim>\<open>Stable\<close> and the model name \<^verbatim>\<open>Insufficient Data\<close>.
\<close>

theorem select_best_forecast_two_entries:
  "select_best_forecast example_statlib history_2 =
     \<lparr>predicted_score = 75, trend_direction = ''Stable'',
      model_used = ''Insufficient Data'', rmse = 0, confidence_interval = CI_number 0\<rparr> \<and>
   trend_direction (select_best_forecast example_statlib history_2) \<noteq> ''Improving'' \<and>
   drop (length (model_used (select_best_forecast example_statlib history_2))
           - length '' (Adjusted)'')
        (model_used (select_best_forecast example_statlib history_2)) \<noteq> '' (Adjusted)''"
  by (simp add: select_best_forecast_def history_2_def)

text \<open>
  Claim C6, amended. On a history of at least three entries for which at least one model
  returns a forecast, with \<open>best\<close> the first result of minimal error, \<open>current\<close> the last
  safety score and \<open>previous\<close> the one before it: if \<open>current - previous > 10\<close> and the
  prediction of \<open>best\<close> is below \<open>current\<close>, the forecast has \<open>predicted_score = current\<close>,
  trend \<^verbatim>\<open>Improving\<close> and the model name of \<open>best\<close> followed by \<^verbatim>\<open> (Adjusted)\<close>;
  symmetrically with \<open>current - previous < -10\<close>, a prediction above \<open>current\<close> and
  \<^verbatim>\<open>Declining\<close>. A history of fewer than three entries, the two-entry history of the claim
  among them, yields the trend \<^verbatim>\<open>Stable\<close> and the model name \<^verbatim>\<open>Insufficient Data\<close>.
\<close>

theorem select_best_forecast_override:
  assumes "3 \<le> length hist"
    and "fit_results lib hist = r # rs"
    and "best = py_min (\<lambda>x. fit_result.rmse (snd x)) r rs"
    and "current = hist_entry.safety_score (last hist)"
    and "previous = hist_entry.safety_score (hist ! (length hist - 2))"
  shows "(10 < current - previous \<and> fit_result.predicted_score (snd best) < current \<longrightarrow>
            select_best_forecast lib hist =
              \<lparr>predicted_score = current,
               trend_direction = ''Improving'',
               model_used = fst best @ '' (Adjusted)'',
               rmse = fit_result.rmse (snd best),
               confidence_interval = CI_text (fit_result.confidence_interval (snd best))\<rparr>) \<and>
         (current - previous < - 10 \<and> current < fit_result.predicted_score (snd best) \<longrightarrow>
            select_best_forecast lib hist =
              \<lparr>predicted_score = current,
               trend_direction = ''Declining'',
               model_used = fst best @ '' (Adjusted)'',
               rmse = fit_result.rmse (snd best),
               confidence_interval = CI_text (fit_result.confidence_interval (snd best))\<rparr>) \<and>
         (\<forall>h. length h < 3 \<longrightarrow>
            trend_direction (select_best_forecast lib h) = ''Stable'' \<and>
            model_used (select_best_forecast lib h) = ''Insufficient Data'')"
proof -
  have sel: "select_best_forecast lib hist = adjust_forecast hist best"
    using assms(1,2,3) by (auto simp: select_best_forecast_def)
  have len: "1 < length hist" using assms(1) by simp
  show ?thesis
    using sel adjust_forecast_improving [OF len, of best]
      adjust_forecast_declining [OF len, of best] assms(4,5)
    by (simp add: select_best_forecast_short)
qed

lemma example_fit_results:
  "fit_results example_statlib history_3 =
     [(''Holt (Exp Smoothing)'',
        \<lparr>fit_result.predicted_score = 55, fit_result.rmse = 1,
         fit_result.confidence_interval = 2\<rparr>),
      (''Linear Regression'',
        \<lparr>fit_result.predicted_score = 55, fit_result.rmse = 1,
         fit_result.confidence_interval = 2\<rparr>),
      (''Moving Average'',
        \<lparr>fit_result.predicted_score = 617 / 10, fit_result.rmse = 5,
         fit_result.confidence_interval = 98 / 10\<rparr>)]"
  by (simp add: fit_results_def models_def List.map_filter_def fit_seasonal_decompose_def
      fit_holt_def fit_polynomial_def fit_linear_regression_def fit_moving_average_def
      history_3_def history_2_def example_statlib_def fit_dict_def py_round_def
      round_half_even_def Let_def)


lemma example_fit_results_decline:
  "fit_results example_statlib history_decline =
     [(''Holt (Exp Smoothing)'',
        \<lparr>fit_result.predicted_score = 55, fit_result.rmse = 1,
         fit_result.confidence_interval = 2\<rparr>),
      (''Linear Regression'',
        \<lparr>fit_result.predicted_score = 55, fit_result.rmse = 1,
         fit_result.confidence_interval = 2\<rparr>),
      (''Moving Average'',
        \<lparr>fit_result.predicted_score = 567 / 10, fit_result.rmse = 5,
         fit_result.confidence_interval = 98 / 10\<rparr>)]"
  by (simp add: fit_results_def models_def List.map_filter_def fit_seasonal_decompose_def
      fit_holt_def fit_polynomial_def fit_linear_regression_def fit_moving_average_def
      history_decline_def example_statlib_def fit_dict_def py_round_def
      round_half_even_def Let_def)

theorem select_best_forecast_override_witness:
  "3 \<le> length history_3 \<and>
   fit_results example_statlib history_3 \<noteq> [] \<and>
   10 < hist_entry.safety_score (last history_3) - hist_entry.safety_score (history_3 ! (length history_3 - 2)) \<and>
   select_best_forecast example_statlib history_3 =
     \<lparr>predicted_score = 75, trend_direction = ''Improving'',
      model_used = ''Holt (Exp Smoothing) (Adjusted)'', rmse = 1,
      confidence_interval = CI_text 2\<rparr> \<and>
   3 \<le> length history_decline \<and>
   hist_entry.safety_score (last history_decline)
     - hist_entry.safety_score (history_decline ! (length history_decline - 2)) < - 10 \<and>
   select_best_forecast example_statlib history_decline =
     \<lparr>predicted_score = 40, trend_direction = ''Declining'',
      model_used = ''Holt (Exp Smoothing) (Adjusted)'', rmse = 1,
      confidence_interval = CI_text 2\<rparr> \<and>
   length history_2 < 3 \<and>
   trend_direction (select_best_forecast example_statlib history_2) = ''Stable'' \<and>
   model_used (select_best_forecast example_statlib history_2) = ''Insufficient Data''"
proof -
  have l3: "3 \<le> length history_3" by (simp add: history_3_def history_2_def)
  have ld: "3 \<le> length history_decline" by (simp add: history_decline_def)
  have l2: "length history_2 < 3" by (simp add: history_2_def)
  have v3: "hist_entry.safety_score (last history_3) = 75"
    "hist_entry.safety_score (history_3 ! (length history_3 - 2)) = 60"
    by (simp_all add: history_3_def history_2_def)
  have vd: "hist_entry.safety_score (last history_decline) = 40"
    "hist_entry.safety_score (history_decline ! (length history_decline - 2)) = 60"
    by (simp_all add: history_decline_def)
  note up = select_best_forecast_override [OF l3 example_fit_results refl refl refl]
  note down = select_best_forecast_override [OF ld example_fit_results_decline refl refl refl]
  have a: "select_best_forecast example_statlib history_3 =
     \<lparr>predicted_score = 75, trend_direction = ''Improving'',
      model_used = ''Holt (Exp Smoothing) (Adjusted)'', rmse = 1,
      confidence_interval = CI_text 2\<rparr>"
    using up by (simp add: v3 py_min_def)
  have b: "select_best_forecast example_statlib history_decline =
     \<lparr>predicted_score = 40, trend_direction = ''Declining'',
      model_used = ''Holt (Exp Smoothing) (Adjusted)'', rmse = 1,
      confidence_interval = CI_text 2\<rparr>"
    using down by (simp add: vd py_min_def)
  have c: "trend_direction (select_best_forecast example_statlib history_2) = ''Stable'' \<and>
     model_used (select_best_forecast example_statlib history_2) = ''Insufficient Data''"
    using up l2 by blast
  show ?thesis
    using l3 ld l2 a b c by (simp add: v3 vd example_fit_results)
qed

section \<open>Proofs: calculate_score\<close>

subsection \<open>Distances and the query\<close>

lemma haversine_self: "haversine qlat qlon qlat qlon = 0"
  by (simp add: haversine_def arctan2_def radians_def Let_def)

lemma cos_radians_pos: "0 < x \<Longrightarrow> x < 90 \<Longrightarrow> 0 < cos (radians x)"
proof -
  assume x: "0 < x" "x < 90"
  have p: "0 < pi" by (rule pi_gt_zero)
  have "x * pi < 90 * pi" using x p by simp
  then have lt: "radians x < pi / 2" by (simp add: radians_def)
  have "0 < radians x" using x p by (simp add: radians_def)
  then have gt: "- (pi / 2) < radians x" using p by linarith
  show ?thesis using gt lt by (rule cos_gt_zero_pi)
qed

lemma sql_query_at_point:
  assumes "0 < x" "x < 90" "0 \<le> radius_km"
    and "\<forall>r \<in> set table. crime.lat r = PyNum x \<and> crime.lon r = PyNum y"
  shows "sql_query clk table x y radius_km
           = filter (\<lambda>r. sql_since_years clk 10 (date r)) table"
proof -
  have c: "0 < cos (radians x)" using assms(1,2) by (rule cos_radians_pos)
  have "0 \<le> radius_km / (111 * cos (radians x))" using c assms(3) by simp
  moreover have "0 \<le> radius_km / 111" using assms(3) by simp
  ultimately show ?thesis
    using assms(4) unfolding sql_query_def Let_def
    by (intro filter_cong) (auto simp: between_def)
qed

lemma candidates_at_point:
  assumes "0 < x" "x < 90" "0 \<le> radius_km"
    and "\<forall>r \<in> set table. crime.lat r = PyNum x \<and> crime.lon r = PyNum y"
  shows "candidates clk table x y radius_km
           = filter (\<lambda>r. sql_since_years clk 10 (date r)) table"
proof -
  have "distance x y r \<le> radius_km" if "r \<in> set table" for r
    using that assms(3,4) by (simp add: distance_def haversine_self)
  then have "filter (\<lambda>r. distance x y r \<le> radius_km) (filter (\<lambda>r. sql_since_years clk 10 (date r)) table)
        = filter (\<lambda>r. sql_since_years clk 10 (date r)) table"
    by (intro filter_True) simp
  then show ?thesis
    by (simp add: candidates_def sql_query_at_point [OF assms])
qed

lemma example_store_coords:
  "\<forall>r \<in> set example_store. crime.lat r = PyNum example_lat \<and> crime.lon r = PyNum example_lon"
  by (simp add: example_store_def incident_at_def)

lemma example_candidates:
  "candidates example_clock example_store example_lat example_lon example_radius = example_store"
proof -
  have "candidates example_clock example_store example_lat example_lon example_radius
          = filter (\<lambda>r. sql_since_years example_clock 10 (date r)) example_store"
    by (rule candidates_at_point [OF _ _ _ example_store_coords])
       (simp_all add: example_lat_def example_radius_def)
  then show ?thesis by (simp add: example_clock_def)
qed

lemma calculate_score_candidates:
  "calculate_score clk lib bm table qlat qlon radius_km =
     (let df = candidates clk table qlat qlon radius_km
      in if df = [] then Inr base_response
         else if \<exists>r \<in> set df. days_old_of clk (date r) = None then Inl ValueError
         else score_response clk lib bm df)"
  by (auto simp: calculate_score_def candidates_def Let_def)


lemma haversine_same_lon:
  assumes "0 \<le> d" "d < 180"
  shows "haversine qlat qlon (qlat + d) qlon = 6371 * radians d"
proof -
  define u where "u = radians d / 2"
  have p: "0 < pi" by (rule pi_gt_zero)
  have u0: "0 \<le> u" using assms(1) p by (simp add: u_def radians_def)
  have "d * pi < 180 * pi" using assms(2) p by simp
  then have u1: "u < pi / 2" by (simp add: u_def radians_def)
  have c: "0 < cos u" using u0 u1 p by (intro cos_gt_zero_pi) linarith+
  have s: "0 \<le> sin u" using u0 u1 p by (intro sin_ge_zero) linarith+
  have one: "1 - (sin u)\<^sup>2 = (cos u)\<^sup>2"
    by (simp add: cos_squared_eq)
  have "arctan2 (sqrt ((sin u)\<^sup>2)) (sqrt (1 - (sin u)\<^sup>2)) = arctan (sin u / cos u)"
    using c s by (simp add: one arctan2_def)
  also have "\<dots> = arctan (tan u)" by (simp add: tan_def)
  also have "\<dots> = u" using u0 u1 p by (intro arctan_tan) linarith+
  finally have a: "arctan2 (sqrt ((sin u)\<^sup>2)) (sqrt (1 - (sin u)\<^sup>2)) = u" .
  have hv: "haversine qlat qlon (qlat + d) qlon
              = 6371 * (2 * arctan2 (sqrt ((sin u)\<^sup>2)) (sqrt (1 - (sin u)\<^sup>2)))"
    by (simp add: haversine_def Let_def u_def radians_def)
  show ?thesis unfolding hv a by (simp add: u_def)
qed

lemma far_row_distance: "0.8 < haversine 44 (- 79) 45 (- 79)"
proof -
  have "haversine 44 (- 79) (44 + 1) (- 79) = 6371 * radians 1"
    by (rule haversine_same_lon) simp_all
  moreover have "2 \<le> pi" by (rule pi_ge_two)
  ultimately show ?thesis by (simp add: radians_def)
qed

lemma no_candidates:
  assumes "\<forall>r \<in> set table. \<forall>x y.
             crime.lat r = PyNum x \<and> crime.lon r = PyNum y \<and> sql_since_years clk 10 (date r)
             \<longrightarrow> radius_km < haversine qlat qlon x y"
  shows "candidates clk table qlat qlon radius_km = []"
proof -
  have "\<not> distance qlat qlon r \<le> radius_km"
    if r: "r \<in> set (sql_query clk table qlat qlon radius_km)" for r
  proof -
    from r have in_t: "r \<in> set table" and recent: "sql_since_years clk 10 (date r)"
      by (auto simp: sql_query_def Let_def)
    from r obtain x where x: "crime.lat r = PyNum x"
      by (auto simp: sql_query_def Let_def between_def split: pyval.splits)
    from r obtain y where y: "crime.lon r = PyNum y"
      by (auto simp: sql_query_def Let_def between_def split: pyval.splits)
    from assms in_t x y recent have "radius_km < haversine qlat qlon x y" by blast
    then show ?thesis by (simp add: distance_def x y)
  qed
  then show ?thesis by (simp add: candidates_def filter_empty_conv)
qed

text \<open>
  Claim C7. When no stored incident of the trailing ten years lies within \<open>radius_km\<close> of
  the query point, \<open>calculate_score\<close> returns the default response: current score 100,
  overall percentile 0, an empty category breakdown, empty insights, and day and night
  safety scores of 100.
\<close>

theorem calculate_score_all_safe:
  assumes "\<forall>r \<in> set table. \<forall>x y.
             crime.lat r = PyNum x \<and> crime.lon r = PyNum y \<and> sql_since_years clk 10 (date r)
             \<longrightarrow> radius_km < haversine qlat qlon x y"
  shows "calculate_score clk lib bm table qlat qlon radius_km = Inr base_response \<and>
         current_score base_response = 100 \<and>
         overall_percentile base_response = 0 \<and>
         category_breakdown base_response = [] \<and>
         insights base_response = None \<and>
         temporal_breakdown base_response =
           \<lparr>day_safety_score = 100, night_safety_score = 100\<rparr>"
  using no_candidates [OF assms]
  by (simp add: calculate_score_candidates base_response_def)

theorem calculate_score_all_safe_witness:
  "far_store \<noteq> [] \<and>
   sql_since_years example_clock 10 (date (hd far_store)) \<and>
   0.8 < haversine 44 (- 79) (the_num (crime.lat (hd far_store)))
           (the_num (crime.lon (hd far_store))) \<and>
   calculate_score example_clock example_statlib empty_benchmarks far_store 44 (- 79) 0.8
     = Inr base_response \<and>
   current_score base_response = 100 \<and>
   insights base_response = None"
proof -
  have h: "\<forall>r \<in> set far_store. \<forall>x y.
             crime.lat r = PyNum x \<and> crime.lon r = PyNum y
               \<and> sql_since_years example_clock 10 (date r)
             \<longrightarrow> 0.8 < haversine 44 (- 79) x y"
    using far_row_distance by (simp add: far_store_def incident_at_def)
  have "0.8 < haversine 44 (- 79) (the_num (crime.lat (hd far_store)))
           (the_num (crime.lon (hd far_store)))"
    using far_row_distance by (simp add: far_store_def incident_at_def)
  then show ?thesis
    using calculate_score_all_safe [OF h, of example_statlib empty_benchmarks]
    by (simp add: far_store_def example_clock_def)
qed

subsection \<open>The category breakdown\<close>

lemma score_response_breakdown:
  assumes "score_response clk lib bm df = Inr resp"
  shows "category_breakdown resp = category_breakdown_of clk bm (df_current_of clk df)"
  using assms
  by (auto simp: score_response_def Let_def split: if_splits prod.splits)

lemma category_entry_Some_iff:
  "(category_entry clk bm df_current cat w \<noteq> None)
     = (PyStr cat \<in> crime.category ` set df_current)"
proof -
  have "(filter (\<lambda>r. crime.category r = PyStr cat) df_current \<noteq> [])
          = (PyStr cat \<in> crime.category ` set df_current)"
    by (auto simp: filter_empty_conv intro: rev_image_eqI)
  then show ?thesis
    by (auto simp: category_entry_def Let_def split: prod.splits)
qed

lemma map_filter_keys:
  assumes "\<And>cat w. (cat, w) \<in> set kws \<Longrightarrow> (f cat w \<noteq> None) = P cat"
  shows "map fst (List.map_filter (\<lambda>(cat, w). map_option (Pair cat) (f cat w)) kws)
           = filter P (map fst kws)"
  using assms
proof (induction kws)
  case Nil
  show ?case by (simp add: List.map_filter_simps)
next
  case (Cons kw kws)
  obtain cat w where kw: "kw = (cat, w)" by (cases kw)
  have step: "(f cat w \<noteq> None) = P cat" using Cons.prems [of cat w] kw by simp
  have IH: "map fst (List.map_filter (\<lambda>(cat, w). map_option (Pair cat) (f cat w)) kws)
           = filter P (map fst kws)"
    using Cons.IH Cons.prems by simp
  show ?case
  proof (cases "f cat w")
    case None
    with step IH kw show ?thesis by (simp add: List.map_filter_simps)
  next
    case (Some e)
    with step IH kw show ?thesis by (simp add: List.map_filter_simps)
  qed
qed

lemma category_breakdown_keys:
  "map fst (category_breakdown_of clk bm df_current)
     = filter (\<lambda>cat. PyStr cat \<in> crime.category ` set df_current) (map fst WEIGHTS)"
proof (cases "df_current = []")
  case True
  then show ?thesis by (simp add: category_breakdown_of_def)
next
  case False
  have "map fst (List.map_filter
           (\<lambda>(cat, w). map_option (Pair cat) (category_entry clk bm df_current cat w)) WEIGHTS)
        = filter (\<lambda>cat. PyStr cat \<in> crime.category ` set df_current) (map fst WEIGHTS)"
    by (rule map_filter_keys) (rule category_entry_Some_iff)
  with False show ?thesis by (simp add: category_breakdown_of_def)
qed

lemma category_entry_trend_up:
  assumes "category_entry clk bm (df_current_of clk df) cat w = Some e"
  shows "cat_entry.trend e = ''Up''"
proof -
  define cat_df where "cat_df = filter (\<lambda>r. crime.category r = PyStr cat) (df_current_of clk df)"
  have ne: "cat_df \<noteq> []"
    using assms by (auto simp: category_entry_def cat_df_def Let_def split: if_splits)
  have young: "\<forall>r \<in> set cat_df. days_old clk r \<le> 365"
    by (simp add: cat_df_def df_current_of_def)
  have prev: "filter (\<lambda>r. days_old clk r > 365 \<and> days_old clk r \<le> 730) cat_df = []"
    using young by (fastforce simp: filter_empty_conv)
  have recent: "filter (\<lambda>r. days_old clk r \<le> 365) cat_df = cat_df"
    using young by (simp add: filter_id_conv)
  show ?thesis
    using assms ne
    unfolding category_entry_def Let_def cat_df_def [symmetric] prev recent
    by (auto split: if_splits prod.splits)
qed

lemma category_breakdown_trend_up:
  assumes "(cat, e) \<in> set (category_breakdown_of clk bm (df_current_of clk df))"
  shows "cat_entry.trend e = ''Up''"
proof -
  from assms obtain w where "category_entry clk bm (df_current_of clk df) cat w = Some e"
    by (auto simp: category_breakdown_of_def List.map_filter_def split: if_splits)
  then show ?thesis by (rule category_entry_trend_up)
qed


lemma score_response_ok:
  assumes "df_current_of clk df = [] \<or> (\<exists>r \<in> set (df_current_of clk df). \<not> isna (crime.neighbourhood r))"
  shows "\<not> isl (score_response clk lib bm df)"
  using assms
  by (auto simp: score_response_def Let_def split: prod.splits)

lemma calculate_score_breakdown:
  assumes "calculate_score clk lib bm table qlat qlon radius_km = Inr resp"
  shows "category_breakdown resp
           = category_breakdown_of clk bm
               (df_current_of clk (candidates clk table qlat qlon radius_km))"
proof (cases "candidates clk table qlat qlon radius_km = []")
  case True
  with assms have "resp = base_response"
    by (simp add: calculate_score_candidates)
  with True show ?thesis
    by (simp add: base_response_def category_breakdown_of_def df_current_of_def)
next
  case False
  with assms have "score_response clk lib bm (candidates clk table qlat qlon radius_km) = Inr resp"
    by (simp add: calculate_score_candidates Let_def split: if_splits)
  then show ?thesis by (rule score_response_breakdown)
qed

lemma example_df_current:
  "df_current_of example_clock example_store =
     [incident_at ''E-1'' ''2024-05-17 00:00:00'' ''Assault'',
      incident_at ''E-7'' ''2024-05-17 00:00:00'' ''Hate Crime'']"
  by (simp add: df_current_of_def example_store_def days_old_def example_clock_def incident_at_def)

lemma example_score_is_response:
  "\<not> isl (calculate_score example_clock example_statlib empty_benchmarks example_store
            example_lat example_lon example_radius)"
proof -
  have parsed: "\<not> (\<exists>r \<in> set example_store. days_old_of example_clock (date r) = None)"
    by (simp add: example_store_def incident_at_def example_clock_def)
  have ne: "example_store \<noteq> []" by (simp add: example_store_def)
  have "calculate_score example_clock example_statlib empty_benchmarks example_store
            example_lat example_lon example_radius
          = score_response example_clock example_statlib empty_benchmarks example_store"
    by (simp add: calculate_score_candidates example_candidates parsed ne)
  moreover have "\<not> isl (score_response example_clock example_statlib empty_benchmarks example_store)"
    by (rule score_response_ok) (simp add: example_df_current incident_at_def)
  ultimately show ?thesis by simp
qed

lemma example_breakdown:
  "map (\<lambda>(cat, e). (cat, cat_entry.incident_count e, cat_entry.trend e))
     (category_breakdown_of example_clock empty_benchmarks
        (df_current_of example_clock example_store))
     = [(''Assault'', 1, ''Up'')]"
  unfolding example_df_current
  by (simp add: category_breakdown_of_def WEIGHTS_def List.map_filter_def
      category_entry_def incident_at_def days_old_def example_clock_def empty_benchmarks_def
      calculate_percentile_score_def Let_def)

lemma example_windows:
  "length (filter (\<lambda>r. crime.category r = PyStr ''Assault'' \<and> days_old example_clock r \<le> 365)
             example_store) = 1 \<and>
   length (filter (\<lambda>r. crime.category r = PyStr ''Assault'' \<and> 365 < days_old example_clock r
                         \<and> days_old example_clock r \<le> 730)
             example_store) = 5"
  by (simp add: example_store_def incident_at_def days_old_def example_clock_def)

text \<open>
  Claim C3 says that a category with incidents in both windows is reported \<^verbatim>\<open>Down\<close> when
  its recent count is more than 20% below its prior count. The trend is computed on
  \<open>cat_df\<close>, a part of \<open>df_current\<close>, which holds no row older than 365 days; the prior
  window is always empty there and every entry is reported \<^verbatim>\<open>Up\<close>
  (\<open>category_breakdown_trend_up\<close>). On the example table, with one assault in the last
  365 days and five in the 365 days before, the entry for \<^verbatim>\<open>Assault\<close> has the trend
  \<^verbatim>\<open>Up\<close>.
\<close>

theorem category_trend_ignores_prior_window:
  "\<not> isl (calculate_score example_clock example_statlib empty_benchmarks example_store
            example_lat example_lon example_radius) \<and>
   map (\<lambda>(cat, e). (cat, cat_entry.incident_count e, cat_entry.trend e))
     (category_breakdown (projr (calculate_score example_clock example_statlib
        empty_benchmarks example_store example_lat example_lon example_radius)))
     = [(''Assault'', 1, ''Up'')] \<and>
   length (filter (\<lambda>r. crime.category r = PyStr ''Assault'' \<and> days_old example_clock r \<le> 365)
             (candidates example_clock example_store example_lat example_lon example_radius)) = 1 \<and>
   length (filter (\<lambda>r. crime.category r = PyStr ''Assault'' \<and> 365 < days_old example_clock r
                         \<and> days_old example_clock r \<le> 730)
             (candidates example_clock example_store example_lat example_lon example_radius)) = 5"
proof -
  let ?res = "calculate_score example_clock example_statlib empty_benchmarks example_store
                example_lat example_lon example_radius"
  have r: "\<not> isl ?res" by (rule example_score_is_response)
  then have "?res = Inr (projr ?res)" by (cases ?res) simp_all
  then have "category_breakdown (projr ?res)
               = category_breakdown_of example_clock empty_benchmarks
                   (df_current_of example_clock example_store)"
    using calculate_score_breakdown [of example_clock example_statlib empty_benchmarks
        example_store example_lat example_lon example_radius "projr ?res"]
    by (simp add: example_candidates)
  then show ?thesis
    using r example_breakdown example_windows by (simp add: example_candidates)
qed

text \<open>
  Claim C4, as stated, promises an entry for every category present among the candidates
  of the last 365 days, also outside the weight table. The loop runs over the keys of
  \<open>WEIGHTS\<close> only: on the example table the incident of category \<^verbatim>\<open>Hate Crime\<close> is among
  those candidates and the breakdown has no entry for it.
\<close>

theorem hate_crime_not_in_breakdown:
  "\<not> isl (calculate_score example_clock example_statlib empty_benchmarks example_store
            example_lat example_lon example_radius) \<and>
   incident_at ''E-7'' ''2024-05-17 00:00:00'' ''Hate Crime''
     \<in> set (df_current_of example_clock
              (candidates example_clock example_store example_lat example_lon example_radius)) \<and>
   crime.category (incident_at ''E-7'' ''2024-05-17 00:00:00'' ''Hate Crime'')
     = PyStr ''Hate Crime'' \<and>
   ''Hate Crime'' \<notin> fst ` set (category_breakdown (projr (calculate_score example_clock
        example_statlib empty_benchmarks example_store example_lat example_lon example_radius)))"
proof -
  let ?res = "calculate_score example_clock example_statlib empty_benchmarks example_store
                example_lat example_lon example_radius"
  have r: "\<not> isl ?res" by (rule example_score_is_response)
  then have "?res = Inr (projr ?res)" by (cases ?res) simp_all
  then have "category_breakdown (projr ?res)
               = category_breakdown_of example_clock empty_benchmarks
                   (df_current_of example_clock example_store)"
    using calculate_score_breakdown [of example_clock example_statlib empty_benchmarks
        example_store example_lat example_lon example_radius "projr ?res"]
    by (simp add: example_candidates)
  then have "map fst (category_breakdown (projr ?res)) = [''Assault'']"
    by (simp add: category_breakdown_keys example_df_current WEIGHTS_def incident_at_def)
  then have "fst ` set (category_breakdown (projr ?res)) = {''Assault''}"
    by (metis list.set_map list.simps(15) empty_set)
  then show ?thesis
    using r by (simp add: example_candidates example_df_current incident_at_def)
qed

text \<open>
  Claim C4, amended. The category breakdown of a response has an entry for exactly those
  categories of the severity weight table that are present among the in-radius candidates
  of the last 365 days, in the order of the table; a category outside the table, such as
  \<^verbatim>\<open>Hate Crime\<close>, has no entry.
\<close>

theorem category_breakdown_keys_of_response:
  assumes "calculate_score clk lib bm table qlat qlon radius_km = Inr resp"
  shows "map fst (category_breakdown resp)
           = filter (\<lambda>cat. PyStr cat \<in> crime.category `
                        set (df_current_of clk (candidates clk table qlat qlon radius_km)))
               (map fst WEIGHTS)"
  using calculate_score_breakdown [OF assms] by (simp add: category_breakdown_keys)

theorem category_breakdown_keys_of_response_witness:
  "calculate_score example_clock example_statlib empty_benchmarks example_store example_lat example_lon example_radius
     = Inr (projr (calculate_score example_clock example_statlib empty_benchmarks example_store
              example_lat example_lon example_radius)) \<and>
   map fst (category_breakdown (projr (calculate_score example_clock example_statlib
       empty_benchmarks example_store example_lat example_lon example_radius))) = [''Assault'']"
proof -
  let ?res = "calculate_score example_clock example_statlib empty_benchmarks example_store
                example_lat example_lon example_radius"
  have "\<not> isl ?res" by (rule example_score_is_response)
  then have eq: "?res = Inr (projr ?res)" by (cases ?res) simp_all
  have "map fst (category_breakdown (projr ?res)) = [''Assault'']"
    using category_breakdown_keys_of_response [OF eq]
    by (simp add: example_candidates example_df_current WEIGHTS_def incident_at_def)
  with eq show ?thesis by simp
qed

section \<open>Proofs: the benchmark grid\<close>

lemma length_grid_points:
  "length grid_points =
     length (arange 43.58 43.85 (GRID_RESOLUTION_KM / 111)) *
     length (arange (- 79.64) (- 79.12) (GRID_RESOLUTION_KM / (111 * cos (radians 43.7))))"
proof -
  have "length (concat (map (\<lambda>la. map (\<lambda>lo. (la, lo)) lons) lats)) = length lats * length lons"
    for lats lons :: "real list"
    by (induction lats) simp_all
  then show ?thesis by (simp add: grid_points_def Let_def)
qed

lemma build_benchmarks_overall:
  "length (overall_distribution (build_benchmarks clk df)) = length grid_points \<and>
   total_points (build_benchmarks clk df) = length grid_points \<and>
   sorted (overall_distribution (build_benchmarks clk df))"
  by (simp add: build_benchmarks_def Let_def)

lemma build_benchmarks_keys:
  "map fst (by_category (build_benchmarks clk df)) = map fst WEIGHTS"
  by (simp add: build_benchmarks_def Let_def split_def comp_def)

lemma build_benchmarks_by_category:
  assumes "(cat, scores) \<in> set (by_category (build_benchmarks clk df))"
  shows "length scores = length grid_points \<and> sorted scores"
  using assms by (auto simp: build_benchmarks_def Let_def)

text \<open>
  Claim C9. Whenever the generator writes a baseline, its \<open>overall_distribution\<close> has one
  entry for every grid point, the grid being the full product of the latitude steps and
  the longitude steps over the bounding box, and is sorted ascending; \<open>by_category\<close> has
  the keys of the weight table, and each of its arrays has that same length and is sorted
  ascending.
\<close>

theorem generate_benchmarks_shape:
  assumes "generate_benchmarks clk table = Inr (Some b)"
  shows "length (overall_distribution b) = length grid_points \<and>
         total_points b = length grid_points \<and>
         sorted (overall_distribution b) \<and>
         map fst (by_category b) = map fst WEIGHTS \<and>
         (\<forall>(cat, scores) \<in> set (by_category b).
            length scores = length grid_points \<and> sorted scores) \<and>
         length grid_points =
           length (arange 43.58 43.85 (GRID_RESOLUTION_KM / 111)) *
           length (arange (- 79.64) (- 79.12) (GRID_RESOLUTION_KM / (111 * cos (radians 43.7))))"
proof -
  from assms obtain df where b: "b = build_benchmarks clk df"
    by (auto simp: generate_benchmarks_def Let_def split: if_splits)
  have "\<forall>(cat, scores) \<in> set (by_category b). length scores = length grid_points \<and> sorted scores"
    using build_benchmarks_by_category [of _ _ clk df] by (auto simp: b)
  then show ?thesis
    using build_benchmarks_overall [of clk df] build_benchmarks_keys [of clk df]
      length_grid_points
    by (simp add: b)
qed

lemma example_benchmarks:
  "generate_benchmarks example_clock example_store
     = Inr (Some (build_benchmarks example_clock example_store))"
proof -
  have parsed: "\<not> (\<exists>r \<in> set example_store. days_old_of example_clock (date r) = None)"
    by (simp add: example_store_def incident_at_def example_clock_def)
  have recent: "filter (\<lambda>r. sql_since_years example_clock n (date r)) example_store = example_store"
    for n
    by (simp add: example_clock_def)
  have ne: "example_store \<noteq> []" by (simp add: example_store_def)
  show ?thesis
    by (simp add: generate_benchmarks_def recent parsed ne)
qed

theorem generate_benchmarks_shape_witness:
  "generate_benchmarks example_clock example_store
     = Inr (Some (build_benchmarks example_clock example_store)) \<and>
   length (overall_distribution (build_benchmarks example_clock example_store))
     = length grid_points \<and>
   sorted (overall_distribution (build_benchmarks example_clock example_store)) \<and>
   map fst (by_category (build_benchmarks example_clock example_store)) = map fst WEIGHTS \<and>
   hd (by_category (build_benchmarks example_clock example_store))
     \<in> set (by_category (build_benchmarks example_clock example_store)) \<and>
   length (snd (hd (by_category (build_benchmarks example_clock example_store))))
     = length grid_points \<and>
   sorted (snd (hd (by_category (build_benchmarks example_clock example_store))))"
proof -
  let ?b = "build_benchmarks example_clock example_store"
  note shape = generate_benchmarks_shape [OF example_benchmarks]
  have keys: "map fst (by_category ?b) = map fst WEIGHTS" using shape by blast
  then have "by_category ?b \<noteq> []" by (auto simp: WEIGHTS_def)
  then have mem: "hd (by_category ?b) \<in> set (by_category ?b)" by simp
  have "\<forall>(cat, scores) \<in> set (by_category ?b).
          length scores = length grid_points \<and> sorted scores"
    using shape by blast
  with mem have "length (snd (hd (by_category ?b))) = length grid_points \<and>
      sorted (snd (hd (by_category ?b)))"
    by (auto simp: split_def)
  moreover have "length (overall_distribution ?b) = length grid_points"
    "sorted (overall_distribution ?b)"
    using shape by blast+
  ultimately show ?thesis using keys mem example_benchmarks by simp
qed

end
